theory Spec2Isabelle
  imports Complex_Main
begin

section \<open>PhysicsConfettiEngine: data model\<close>

text \<open>
  The engine of \<^verbatim>\<open>src/PhysicsConfettiEngine.ts\<close>. A JavaScript \<^verbatim>\<open>number\<close> is
  modelled as a \<^typ>\<open>real\<close>: rounding, NaN and the infinities of IEEE doubles are outside
  the model. Identifiers (map keys, timer and frame handles) are natural numbers.
  An optional property (\<^verbatim>\<open>x?: number\<close>, \<^verbatim>\<open>T | null\<close>) is an \<^typ>\<open>'a option\<close>.
\<close>

datatype shape = Square | Circle | Star | Heart | Hexagon | Spiral

record trail_point =
  t_x :: real
  t_y :: real
  t_opacity :: real

record PhysicsParticle =
  p_id :: nat
  p_x :: real
  p_y :: real
  p_vx :: real
  p_vy :: real
  p_ax :: real
  p_ay :: real
  p_size :: real
  p_rotation :: real
  p_rotationVelocity :: real
  p_color :: string
  p_opacity :: real
  p_life :: real
  p_maxLife :: real
  p_mass :: real
  p_shape :: shape
  p_trail :: "trail_point list"
  p_pulsePhase :: real
  p_spiralAngle :: "real option"

datatype attractor_type = Pull | Push | Orbit | Vortex

record Attractor =
  a_x :: real
  a_y :: real
  a_strength :: real
  a_radius :: real
  a_type :: attractor_type

text \<open>
  The argument of \<^verbatim>\<open>addParticle\<close> is a \<^verbatim>\<open>Partial<PhysicsParticle>\<close>; these are the
  properties that \<^verbatim>\<open>addParticle\<close> reads.
\<close>

record particle_config =
  c_x :: "real option"
  c_y :: "real option"
  c_vx :: "real option"
  c_vy :: "real option"
  c_color :: "string option"
  c_size :: "real option"
  c_life :: "real option"
  c_shape :: "shape option"
  c_mass :: "real option"
  c_pulsePhase :: "real option"
  c_spiralAngle :: "real option"

record lissajous_params =
  freqX :: real
  freqY :: real
  phaseX :: real
  phaseY :: real

text \<open>
  \<^verbatim>\<open>StableFluids\<close> and \<^verbatim>\<open>FlowField2D\<close> come from the external package
  \<^verbatim>\<open>@buley/hexgrid-3d\<close>. Each object is modelled by the calls the engine has made on it,
  newest last; what \<^verbatim>\<open>getVelocity\<close> and \<^verbatim>\<open>sample\<close> return is a parameter of the model
  (a field of the state).
\<close>

datatype fluid_call =
    AddForce real real real real real
  | AddDensity real real real real
  | FluidStep real
  | FluidClear

datatype flow_call =
    AddSource real real real real real
  | FlowUpdate real
  | FlowClear

text \<open>
  The closures handed to \<^verbatim>\<open>setTimeout\<close>, each with the variables it captures:
  the secondary ring of \<^verbatim>\<open>createSupernova\<close> (x, y, count, colors, intensity), a pulse of
  \<^verbatim>\<open>createResonance\<close> (x, y), a spawn of \<^verbatim>\<open>createCascade\<close> (width, colors) and a spawn
  of \<^verbatim>\<open>createEmergence\<close> (x, y, i, colors).
\<close>

datatype callback =
    SupernovaRing real real real "string list" real
  | ResonancePulse real real
  | CascadeSpawn real "string list"
  | EmergenceSpawn real real nat "string list"

text \<open>
  The private fields of the class, followed by the part of the browser the engine talks
  to: the viewport size, the pending \<^verbatim>\<open>setTimeout\<close> callbacks with their delays, the
  handles of the pending \<^verbatim>\<open>requestAnimationFrame\<close> requests, the next free handle, and the
  values \<^verbatim>\<open>Math.random()\<close> is going to return (\<open>rnd\<close>, read at position \<open>rpos\<close>).
  The attribute \<open>lissajous\<close> is the property that \<^verbatim>\<open>createHarmony\<close> attaches dynamically.
  The canvas is written by \<^verbatim>\<open>render\<close> only and never read by the simulation; it has
  no field here.
\<close>

record engine =
  particles :: "(nat \<times> PhysicsParticle) list"
  attractors :: "Attractor list"
  fluid :: "fluid_call list option"
  flowField :: "flow_call list option"
  animationId :: "nat option"
  time :: real
  particleIdCounter :: nat
  enabled :: bool
  prefersReducedMotion :: bool
  lissajous :: "lissajous_params list option"
  innerWidth :: real
  innerHeight :: real
  timers :: "(real \<times> callback) list"
  frames :: "nat list"
  nextHandle :: nat
  rnd :: "nat \<Rightarrow> real"
  rpos :: nat
  getVelocity :: "fluid_call list \<Rightarrow> real \<Rightarrow> real \<Rightarrow> real \<times> real"
  sample :: "flow_call list \<Rightarrow> real \<Rightarrow> real \<Rightarrow> real \<times> real"

text \<open>The configuration constants of the class; no method assigns them.\<close>

definition gravity :: real where "gravity = 0.15"
definition drag :: real where "drag = 0.98"
definition fluidInfluence :: real where "fluidInfluence = 0.5"
definition trailLength :: nat where "trailLength = 8"

subsection \<open>The particle map\<close>

text \<open>
  \<^verbatim>\<open>Map<number, PhysicsParticle>\<close> as an association list in insertion order:
  \<^verbatim>\<open>set\<close> replaces the value of a key that is present and appends a new key,
  \<^verbatim>\<open>delete\<close> removes the key, \<^verbatim>\<open>size\<close> is the length.
\<close>

fun map_set :: "nat \<Rightarrow> 'v \<Rightarrow> (nat \<times> 'v) list \<Rightarrow> (nat \<times> 'v) list" where
  "map_set k v [] = [(k, v)]"
| "map_set k v ((k', v') # m) = (if k' = k then (k, v) # m else (k', v') # map_set k v m)"

definition map_delete :: "nat \<Rightarrow> (nat \<times> 'v) list \<Rightarrow> (nat \<times> 'v) list" where
  "map_delete k m = filter (\<lambda>e. fst e \<noteq> k) m"

subsection \<open>Host services\<close>

text \<open>The \<open>k\<close>-th value that \<^verbatim>\<open>Math.random()\<close> returns from now on, and the state after \<open>n\<close> calls.\<close>

definition rand :: "engine \<Rightarrow> nat \<Rightarrow> real" where
  "rand s k = rnd s (rpos s + k)"

definition advance :: "nat \<Rightarrow> engine \<Rightarrow> engine" where
  "advance n s = s\<lparr>rpos := rpos s + n\<rparr>"

definition setTimeout :: "callback \<Rightarrow> real \<Rightarrow> engine \<Rightarrow> engine" where
  "setTimeout cb delay s = s\<lparr>timers := timers s @ [(delay, cb)]\<rparr>"

text \<open>\<^verbatim>\<open>requestAnimationFrame(this.animate)\<close>: the handle is stored in \<^verbatim>\<open>animationId\<close>.\<close>

definition requestAnimationFrame :: "engine \<Rightarrow> engine" where
  "requestAnimationFrame s =
     s\<lparr>animationId := Some (nextHandle s),
       frames := frames s @ [nextHandle s],
       nextHandle := nextHandle s + 1\<rparr>"

definition cancelAnimationFrame :: "nat \<Rightarrow> engine \<Rightarrow> engine" where
  "cancelAnimationFrame h s = s\<lparr>frames := removeAll h (frames s)\<rparr>"

text \<open>A loop \<^verbatim>\<open>for (let i = 0; i < c; i++) body\<close>, started at \<open>i\<close>.\<close>

function for_lt :: "nat \<Rightarrow> real \<Rightarrow> (nat \<Rightarrow> 's \<Rightarrow> 's) \<Rightarrow> 's \<Rightarrow> 's" where
  "for_lt i c body s = (if real i < c then for_lt (Suc i) c body (body i s) else s)"
  by pat_completeness auto
termination
proof (relation "measure (\<lambda>(i, c, body, s). nat \<lceil>c\<rceil> - i)")
  show "wf (measure (\<lambda>(i, c, body, s). nat \<lceil>c\<rceil> - i))" by simp
next
  fix i :: nat and c :: real and body :: "nat \<Rightarrow> 's \<Rightarrow> 's" and s :: 's
  assume "real i < c"
  then have "i < nat \<lceil>c\<rceil>" by linarith
  then show "((Suc i, c, body, body i s), (i, c, body, s)) \<in> measure (\<lambda>(i, c, body, s). nat \<lceil>c\<rceil> - i)"
    by simp
qed

declare for_lt.simps [simp del]

section \<open>Particle management\<close>

definition orElse :: "'a option \<Rightarrow> 'a \<Rightarrow> 'a" where
  "orElse v d = (case v of Some a \<Rightarrow> a | None \<Rightarrow> d)"

text \<open>
  \<^verbatim>\<open>addParticle\<close>. \<^verbatim>\<open>Math.random()\<close> is called for the rotation, for the rotation
  velocity and, only when the configuration has no \<^verbatim>\<open>pulsePhase\<close>, for the pulse phase.
\<close>

definition addParticle :: "particle_config \<Rightarrow> engine \<Rightarrow> engine" where
  "addParticle config s =
     (let id = particleIdCounter s;
          particle = \<lparr>
            p_id = id,
            p_x = orElse (c_x config) 0,
            p_y = orElse (c_y config) 0,
            p_vx = orElse (c_vx config) 0,
            p_vy = orElse (c_vy config) 0,
            p_ax = 0,
            p_ay = 0,
            p_size = orElse (c_size config) 8,
            p_rotation = rand s 0 * pi * 2,
            p_rotationVelocity = (rand s 1 - 0.5) * 0.2,
            p_color = orElse (c_color config) ''#10b981'',
            p_opacity = 1,
            p_life = orElse (c_life config) 150,
            p_maxLife = orElse (c_life config) 150,
            p_mass = orElse (c_mass config) 1,
            p_shape = orElse (c_shape config) Square,
            p_trail = [],
            p_pulsePhase = orElse (c_pulsePhase config) (rand s 2 * pi * 2),
            p_spiralAngle = c_spiralAngle config\<rparr>
      in (advance (if c_pulsePhase config = None then 3 else 2) s)
           \<lparr>particleIdCounter := id + 1,
            particles := map_set id particle (particles s)\<rparr>)"

section \<open>Particle update\<close>

text \<open>The blocks of \<^verbatim>\<open>updateParticle\<close>, in the order of the source.\<close>

definition storeTrail :: "PhysicsParticle \<Rightarrow> PhysicsParticle" where
  "storeTrail particle =
     (if trailLength > 0 then
        (let tr = \<lparr>t_x = p_x particle, t_y = p_y particle, t_opacity = p_opacity particle\<rparr>
                    # p_trail particle
         in particle\<lparr>p_trail := (if length tr > trailLength then butlast tr else tr)\<rparr>)
      else particle)"

definition resetAcceleration :: "PhysicsParticle \<Rightarrow> PhysicsParticle" where
  "resetAcceleration particle = particle\<lparr>p_ax := 0, p_ay := gravity * p_mass particle\<rparr>"

text \<open>The body of the loop over \<^verbatim>\<open>this.attractors\<close>.\<close>

definition applyAttractor :: "Attractor \<Rightarrow> PhysicsParticle \<Rightarrow> PhysicsParticle" where
  "applyAttractor attractor particle =
     (let dx = a_x attractor - p_x particle;
          dy = a_y attractor - p_y particle;
          dist = sqrt (dx * dx + dy * dy)
      in if dist < a_radius attractor \<and> dist > 0.1 then
           (let falloff = 1 - dist / a_radius attractor;
                forceMag = (a_strength attractor * falloff * falloff) / (dist * dist + 100)
            in case a_type attractor of
                 Pull \<Rightarrow> particle\<lparr>p_ax := p_ax particle + (dx / dist) * forceMag,
                                  p_ay := p_ay particle + (dy / dist) * forceMag\<rparr>
               | Push \<Rightarrow> particle\<lparr>p_ax := p_ax particle - (dx / dist) * forceMag,
                                  p_ay := p_ay particle - (dy / dist) * forceMag\<rparr>
               | Orbit \<Rightarrow>
                   (let perpX = - dy / dist; perpY = dx / dist
                    in particle\<lparr>p_ax := p_ax particle + perpX * forceMag * 0.7
                                            + (dx / dist) * forceMag * 0.3,
                                p_ay := p_ay particle + perpY * forceMag * 0.7
                                            + (dy / dist) * forceMag * 0.3\<rparr>)
               | Vortex \<Rightarrow>
                   (let perpX = - dy / dist; perpY = dx / dist
                    in particle\<lparr>p_ax := p_ax particle + perpX * forceMag * 0.8
                                            + (dx / dist) * forceMag * 0.5,
                                p_ay := p_ay particle + perpY * forceMag * 0.8
                                            + (dy / dist) * forceMag * 0.5\<rparr>))
         else particle)"

definition applyFluid :: "engine \<Rightarrow> real \<Rightarrow> PhysicsParticle \<Rightarrow> PhysicsParticle" where
  "applyFluid s dt particle =
     (case fluid s of
        Some fl \<Rightarrow>
          if fluidInfluence > 0 then
            (let gridX = p_x particle / 20;
                 gridY = p_y particle / 20;
                 fluidVel = getVelocity s fl gridX gridY
             in particle\<lparr>p_vx := p_vx particle + fst fluidVel * fluidInfluence * dt,
                         p_vy := p_vy particle + snd fluidVel * fluidInfluence * dt\<rparr>)
          else particle
      | None \<Rightarrow> particle)"

definition applyFlow :: "engine \<Rightarrow> real \<Rightarrow> PhysicsParticle \<Rightarrow> PhysicsParticle" where
  "applyFlow s dt particle =
     (case flowField s of
        Some ff \<Rightarrow>
          (let flowVel = sample s ff (p_x particle) (p_y particle)
           in particle\<lparr>p_vx := p_vx particle + fst flowVel * 0.1 * dt,
                       p_vy := p_vy particle + snd flowVel * 0.1 * dt\<rparr>)
      | None \<Rightarrow> particle)"

text \<open>Velocity, drag, position, rotation and spiral angle.\<close>

definition integrate :: "real \<Rightarrow> PhysicsParticle \<Rightarrow> PhysicsParticle" where
  "integrate dt particle =
     (let vx = (p_vx particle + p_ax particle * dt) * drag;
          vy = (p_vy particle + p_ay particle * dt) * drag
      in particle\<lparr>p_vx := vx, p_vy := vy,
                  p_x := p_x particle + vx * dt,
                  p_y := p_y particle + vy * dt,
                  p_rotation := p_rotation particle + p_rotationVelocity particle,
                  p_spiralAngle := (case p_spiralAngle particle of
                                      Some a \<Rightarrow> Some (a + 0.02) | None \<Rightarrow> None)\<rparr>)"

definition updateLife :: "real \<Rightarrow> PhysicsParticle \<Rightarrow> PhysicsParticle" where
  "updateLife dt particle =
     (let life = p_life particle - dt;
          lifeRatio = life / p_maxLife particle
      in particle\<lparr>p_life := life, p_opacity := min 1 (lifeRatio * 2)\<rparr>)"

definition pulse :: "engine \<Rightarrow> PhysicsParticle \<Rightarrow> PhysicsParticle" where
  "pulse s particle =
     (let pulseScale = 1 + sin (time s * 0.1 + p_pulsePhase particle) * 0.15
      in particle\<lparr>p_size := p_size particle *
           (pulseScale / (pulseScale - 0.15 * sin (time s * 0.1 + p_pulsePhase particle - 0.1)))\<rparr>)"

definition updateParticle :: "engine \<Rightarrow> PhysicsParticle \<Rightarrow> real \<Rightarrow> PhysicsParticle" where
  "updateParticle s particle dt =
     pulse s (updateLife dt (integrate dt (applyFlow s dt (applyFluid s dt
       (fold applyAttractor (attractors s) (resetAcceleration (storeTrail particle)))))))"

section \<open>Celebration recipes\<close>

definition noConfig :: particle_config where
  "noConfig = \<lparr>c_x = None, c_y = None, c_vx = None, c_vy = None, c_color = None,
     c_size = None, c_life = None, c_shape = None, c_mass = None, c_pulsePhase = None,
     c_spiralAngle = None\<rparr>"

text \<open>
  \<^verbatim>\<open>colors[k % colors.length]\<close>: with an empty array the index is NaN and the result
  \<^verbatim>\<open>undefined\<close>; the remainder of a negative \<open>k\<close> is negative (again \<^verbatim>\<open>undefined\<close>)
  unless it is zero.
\<close>

definition colorAt :: "string list \<Rightarrow> int \<Rightarrow> string option" where
  "colorAt colors k =
     (if colors = [] then None
      else if 0 \<le> k then Some (colors ! (nat k mod length colors))
      else if (- k) mod int (length colors) = 0 then Some (colors ! 0)
      else None)"

text \<open>\<^verbatim>\<open>if (this.fluid) this.fluid.f(...)\<close> and \<^verbatim>\<open>if (this.flowField) this.flowField.f(...)\<close>.\<close>

definition fluidCall :: "fluid_call \<Rightarrow> engine \<Rightarrow> engine" where
  "fluidCall c s = (case fluid s of Some fl \<Rightarrow> s\<lparr>fluid := Some (fl @ [c])\<rparr> | None \<Rightarrow> s)"

definition flowCall :: "flow_call \<Rightarrow> engine \<Rightarrow> engine" where
  "flowCall c s = (case flowField s of Some ff \<Rightarrow> s\<lparr>flowField := Some (ff @ [c])\<rparr> | None \<Rightarrow> s)"

definition pushAttractor :: "Attractor \<Rightarrow> engine \<Rightarrow> engine" where
  "pushAttractor a s = s\<lparr>attractors := attractors s @ [a]\<rparr>"

subsection \<open>vortex\<close>

definition vortexSpawn ::
  "real \<Rightarrow> real \<Rightarrow> real \<Rightarrow> string list \<Rightarrow> nat \<Rightarrow> engine \<Rightarrow> engine" where
  "vortexSpawn x y count colors i s =
     (let angle = (real i / count) * pi * 2 + rand s 0 * 0.3;
          radius = 150 + rand s 1 * 200;
          px = x + cos angle * radius;
          py = y + sin angle * radius;
          tangentAngle = angle + pi / 2;
          speed = 3 + rand s 2 * 3
      in addParticle (noConfig\<lparr>
           c_x := Some px,
           c_y := Some py,
           c_vx := Some (cos tangentAngle * speed),
           c_vy := Some (sin tangentAngle * speed),
           c_color := colorAt colors (int i),
           c_size := Some (6 + rand s 3 * 8),
           c_life := Some (200 + rand s 4 * 150),
           c_shape := Some (if rand s 5 > 0.7 then Star else Square),
           c_mass := Some 1\<rparr>) (advance 6 s))"

definition createVortex ::
  "real \<Rightarrow> real \<Rightarrow> real \<Rightarrow> string list \<Rightarrow> real \<Rightarrow> engine \<Rightarrow> engine" where
  "createVortex x y count colors intensity s =
     (let s1 = pushAttractor \<lparr>a_x = x, a_y = y, a_strength = 200 * intensity,
                              a_radius = 400, a_type = Vortex\<rparr> s;
          s2 = fluidCall (AddForce (x / 20) (y / 20) 0 (- 50 * intensity) 10) s1
      in for_lt 0 count (vortexSpawn x y count colors) s2)"

subsection \<open>supernova\<close>

text \<open>
  The loop \<^verbatim>\<open>for (let angle = 0; angle < Math.PI * 2; angle += Math.PI / 8)\<close> takes, in
  real arithmetic, the sixteen values \<open>k * (pi / 8)\<close>, \<open>k < 16\<close>.
\<close>

definition supernovaForce :: "real \<Rightarrow> real \<Rightarrow> real \<Rightarrow> nat \<Rightarrow> engine \<Rightarrow> engine" where
  "supernovaForce x y intensity k s =
     (let angle = real k * (pi / 8);
          fx = cos angle * 100 * intensity;
          fy = sin angle * 100 * intensity
      in fluidCall (AddForce (x / 20) (y / 20) fx fy 5) s)"

definition supernovaBurst ::
  "real \<Rightarrow> real \<Rightarrow> string list \<Rightarrow> real \<Rightarrow> nat \<Rightarrow> engine \<Rightarrow> engine" where
  "supernovaBurst x y colors intensity i s =
     (let angle = rand s 0 * pi * 2;
          speed = (15 + rand s 1 * 20) * intensity
      in addParticle (noConfig\<lparr>
           c_x := Some x,
           c_y := Some y,
           c_vx := Some (cos angle * speed),
           c_vy := Some (sin angle * speed),
           c_color := colorAt colors (int i),
           c_size := Some (4 + rand s 2 * 6),
           c_life := Some (80 + rand s 3 * 60),
           c_shape := Some Circle,
           c_mass := Some 0.5\<rparr>) (advance 4 s))"

definition supernovaRing ::
  "real \<Rightarrow> real \<Rightarrow> string list \<Rightarrow> real \<Rightarrow> nat \<Rightarrow> engine \<Rightarrow> engine" where
  "supernovaRing x y colors intensity i s =
     (let angle = rand s 0 * pi * 2;
          speed = (5 + rand s 1 * 10) * intensity
      in addParticle (noConfig\<lparr>
           c_x := Some x,
           c_y := Some y,
           c_vx := Some (cos angle * speed),
           c_vy := Some (sin angle * speed),
           c_color := colorAt colors (int i + 2),
           c_size := Some (8 + rand s 2 * 10),
           c_life := Some (150 + rand s 3 * 100),
           c_shape := Some Star,
           c_mass := Some 1.5\<rparr>) (advance 4 s))"

definition createSupernova ::
  "real \<Rightarrow> real \<Rightarrow> real \<Rightarrow> string list \<Rightarrow> real \<Rightarrow> engine \<Rightarrow> engine" where
  "createSupernova x y count colors intensity s =
     (let s1 = (if fluid s \<noteq> None then
                  fluidCall (AddDensity (x / 20) (y / 20) (100 * intensity) 5)
                    (for_lt 0 16 (supernovaForce x y intensity) s)
                else s);
          s2 = for_lt 0 (count * 0.6) (supernovaBurst x y colors intensity) s1
      in setTimeout (SupernovaRing x y count colors intensity) 100 s2)"

subsection \<open>aurora\<close>

definition auroraSource :: "real \<Rightarrow> real \<Rightarrow> nat \<Rightarrow> engine \<Rightarrow> engine" where
  "auroraSource height intensity i s =
     (let y = height * (0.1 + real i * 0.2)
      in flowCall (AddSource 0 y (2 * intensity) (sin (real i * 0.5) * 0.5) 200) s)"

definition auroraSpawn ::
  "real \<Rightarrow> real \<Rightarrow> string list \<Rightarrow> nat \<Rightarrow> nat \<Rightarrow> engine \<Rightarrow> engine" where
  "auroraSpawn width baseY colors ribbon i s =
     (let px = rand s 0 * width;
          py = baseY + (rand s 1 - 0.5) * 60
      in addParticle (noConfig\<lparr>
           c_x := Some px,
           c_y := Some py,
           c_vx := Some (1 + rand s 2 * 2),
           c_vy := Some (sin (px * 0.01 + real ribbon) * 0.5),
           c_color := colorAt colors (int ribbon),
           c_size := Some (10 + rand s 3 * 15),
           c_life := Some (300 + rand s 4 * 200),
           c_shape := Some Circle,
           c_mass := Some 0.8\<rparr>) (advance 5 s))"

definition auroraRibbon ::
  "real \<Rightarrow> real \<Rightarrow> real \<Rightarrow> string list \<Rightarrow> nat \<Rightarrow> engine \<Rightarrow> engine" where
  "auroraRibbon width height count colors ribbon s =
     (let baseY = height * (0.15 + real ribbon * 0.25);
          particlesPerRibbon = \<lfloor>count / 4\<rfloor>
      in for_lt 0 (of_int particlesPerRibbon) (auroraSpawn width baseY colors ribbon) s)"

definition createAurora :: "real \<Rightarrow> string list \<Rightarrow> real \<Rightarrow> engine \<Rightarrow> engine" where
  "createAurora count colors intensity s =
     (let width = innerWidth s;
          height = innerHeight s;
          s1 = (if flowField s \<noteq> None then
                  for_lt 0 5 (auroraSource height intensity) (flowCall FlowClear s)
                else s)
      in for_lt 0 4 (auroraRibbon width height count colors) s1)"

subsection \<open>resonance\<close>

definition resonanceSpawn ::
  "real \<Rightarrow> real \<Rightarrow> string list \<Rightarrow> nat \<Rightarrow> real \<Rightarrow> int \<Rightarrow> nat \<Rightarrow> engine \<Rightarrow> engine" where
  "resonanceSpawn x y colors ring ringRadius particlesInRing i s =
     (let angle = (real i / of_int particlesInRing) * pi * 2;
          px = x + cos angle * ringRadius;
          py = y + sin angle * ringRadius
      in addParticle (noConfig\<lparr>
           c_x := Some px,
           c_y := Some py,
           c_vx := Some 0,
           c_vy := Some 0,
           c_color := colorAt colors (int ring),
           c_size := Some (8 + rand s 0 * 6),
           c_life := Some (400 + rand s 1 * 200),
           c_shape := Some (if ring mod 2 = 0 then Heart else Circle),
           c_mass := Some 1,
           c_pulsePhase := Some ((real ring * pi) / 2)\<rparr>) (advance 2 s))"

definition resonanceRing ::
  "real \<Rightarrow> real \<Rightarrow> real \<Rightarrow> string list \<Rightarrow> nat \<Rightarrow> engine \<Rightarrow> engine" where
  "resonanceRing x y count colors ring s =
     (let ringRadius = 50 + real ring * 40;
          particlesInRing = \<lfloor>count / 4\<rfloor>
      in for_lt 0 (of_int particlesInRing)
           (resonanceSpawn x y colors ring ringRadius particlesInRing) s)"

definition createResonance ::
  "real \<Rightarrow> real \<Rightarrow> real \<Rightarrow> string list \<Rightarrow> real \<Rightarrow> real option \<Rightarrow> engine \<Rightarrow> engine" where
  "createResonance x y count colors intensity heartRate s =
     (let bpm = orElse heartRate 72;
          pulseInterval = 60000 / bpm;
          s1 = pushAttractor \<lparr>a_x = x, a_y = y, a_strength = 150 * intensity,
                              a_radius = 300, a_type = Pull\<rparr> s;
          s2 = for_lt 0 4 (resonanceRing x y count colors) s1
      in for_lt 0 5 (\<lambda>i. setTimeout (ResonancePulse x y) (real i * pulseInterval)) s2)"

text \<open>The pulse callback; its angle loop takes the eight values \<open>k * (pi / 4)\<close>, \<open>k < 8\<close>.\<close>

definition resonancePulse :: "real \<Rightarrow> real \<Rightarrow> engine \<Rightarrow> engine" where
  "resonancePulse x y s =
     (if fluid s \<noteq> None then
        for_lt 0 8 (\<lambda>k. fluidCall (AddForce (x / 20) (y / 20)
                          (cos (real k * (pi / 4)) * 30) (sin (real k * (pi / 4)) * 30) 3))
          (fluidCall (AddDensity (x / 20) (y / 20) 50 8) s)
      else s)"

subsection \<open>orbit\<close>

definition orbitCenters :: "real \<Rightarrow> real \<Rightarrow> real \<Rightarrow> (real \<times> real \<times> real) list" where
  "orbitCenters x y intensity =
     [(x, y, 300 * intensity), (x - 150, y + 100, 200 * intensity),
      (x + 150, y + 100, 200 * intensity)]"

definition orbitSpawn ::
  "real \<times> real \<times> real \<Rightarrow> nat \<Rightarrow> string list \<Rightarrow> nat \<Rightarrow> engine \<Rightarrow> engine" where
  "orbitSpawn center ci colors i s =
     (let orbitRadius = 60 + rand s 0 * 100;
          angle = rand s 1 * pi * 2;
          px = fst center + cos angle * orbitRadius;
          py = fst (snd center) + sin angle * orbitRadius;
          orbitalSpeed = sqrt (snd (snd center) / orbitRadius) * 0.3;
          tangent = angle + pi / 2
      in addParticle (noConfig\<lparr>
           c_x := Some px,
           c_y := Some py,
           c_vx := Some (cos tangent * orbitalSpeed),
           c_vy := Some (sin tangent * orbitalSpeed),
           c_color := colorAt colors (int (ci + i)),
           c_size := Some (5 + rand s 2 * 7),
           c_life := Some (400 + rand s 3 * 200),
           c_shape := Some (if rand s 4 > 0.5 then Circle else Hexagon),
           c_mass := Some 1\<rparr>) (advance 5 s))"

definition orbitCenter ::
  "real \<Rightarrow> string list \<Rightarrow> (real \<times> real \<times> real) \<times> nat \<Rightarrow> engine \<Rightarrow> engine" where
  "orbitCenter count colors center_ci s =
     (let center = fst center_ci;
          ci = snd center_ci;
          particlesPerCenter = \<lfloor>count / 3\<rfloor>
      in for_lt 0 (of_int particlesPerCenter) (orbitSpawn center ci colors) s)"

text \<open>Both \<^verbatim>\<open>centers.forEach\<close> loops; the second one passes the index \<open>ci\<close> as well.\<close>

definition createOrbit ::
  "real \<Rightarrow> real \<Rightarrow> real \<Rightarrow> string list \<Rightarrow> real \<Rightarrow> engine \<Rightarrow> engine" where
  "createOrbit x y count colors intensity s =
     (let centers = orbitCenters x y intensity;
          s1 = fold (\<lambda>center. pushAttractor \<lparr>a_x = fst center, a_y = fst (snd center),
                       a_strength = snd (snd center), a_radius = 250, a_type = Orbit\<rparr>)
                 centers s
      in fold (orbitCenter count colors) (zip centers [0 ..< length centers]) s1)"

subsection \<open>cascade\<close>

definition cascadeSpawn :: "real \<Rightarrow> string list \<Rightarrow> engine \<Rightarrow> engine" where
  "cascadeSpawn width colors s =
     (let px = width * (0.1 + rand s 0 * 0.8);
          streamIndex = \<lfloor>(px / width) * 7\<rfloor>
      in addParticle (noConfig\<lparr>
           c_x := Some px,
           c_y := Some (- 20 + rand s 1 * 10),
           c_vx := Some ((rand s 2 - 0.5) * 2),
           c_vy := Some (5 + rand s 3 * 5),
           c_color := (if width = 0 then None else colorAt colors streamIndex),
           c_size := Some (6 + rand s 4 * 10),
           c_life := Some (300 + rand s 5 * 150),
           c_shape := Some Circle,
           c_mass := Some (0.8 + rand s 6 * 0.4)\<rparr>) (advance 7 s))"

definition createCascade :: "real \<Rightarrow> string list \<Rightarrow> real \<Rightarrow> engine \<Rightarrow> engine" where
  "createCascade count colors intensity s =
     (let width = innerWidth s;
          s1 = (if flowField s \<noteq> None then
                  for_lt 0 7 (\<lambda>i. flowCall (AddSource (width * (0.1 + real i * 0.13)) 0 0
                                     (5 * intensity) 300))
                    (flowCall FlowClear s)
                else s);
          spawnDuration = 2000;
          spawnInterval = spawnDuration / count
      in for_lt 0 count
           (\<lambda>i. setTimeout (CascadeSpawn width colors) (real i * spawnInterval)) s1)"

subsection \<open>emergence\<close>

definition emergenceSource :: "real \<Rightarrow> real \<Rightarrow> nat \<Rightarrow> engine \<Rightarrow> engine" where
  "emergenceSource x y i s =
     (let angle = (real i / 8) * pi * 2;
          r = 200;
          sourceX = x + cos angle * r;
          sourceY = y + sin angle * r;
          vx = cos (angle + pi / 2) * 2;
          vy = sin (angle + pi / 2) * 2
      in flowCall (AddSource sourceX sourceY vx vy 100) s)"

definition emergenceSpawn :: "real \<Rightarrow> real \<Rightarrow> nat \<Rightarrow> string list \<Rightarrow> engine \<Rightarrow> engine" where
  "emergenceSpawn x y i colors s =
     (let angle = rand s 0 * pi * 2;
          r = rand s 1 * 30
      in addParticle (noConfig\<lparr>
           c_x := Some (x + cos angle * r),
           c_y := Some (y + sin angle * r),
           c_vx := Some (cos angle * 2),
           c_vy := Some (sin angle * 2),
           c_color := colorAt colors (int i),
           c_size := Some (4 + rand s 2 * 8),
           c_life := Some (200 + rand s 3 * 150),
           c_shape := Some Spiral,
           c_mass := Some 0.7,
           c_spiralAngle := Some angle\<rparr>) (advance 4 s))"

definition createEmergence ::
  "real \<Rightarrow> real \<Rightarrow> real \<Rightarrow> string list \<Rightarrow> real \<Rightarrow> engine \<Rightarrow> engine" where
  "createEmergence x y count colors intensity s =
     (let s1 = (if flowField s \<noteq> None then
                  for_lt 0 8 (emergenceSource x y)
                    (flowCall (AddSource x y 0 (- 3 * intensity) 500) (flowCall FlowClear s))
                else s);
          spawnDuration = 1500;
          spawnInterval = spawnDuration / count
      in for_lt 0 count
           (\<lambda>i. setTimeout (EmergenceSpawn x y i colors) (real i * spawnInterval)) s1)"

subsection \<open>harmony\<close>

definition baseAttractors :: "lissajous_params list" where
  "baseAttractors =
     [\<lparr>freqX = 3, freqY = 2, phaseX = 0, phaseY = pi / 4\<rparr>,
      \<lparr>freqX = 2, freqY = 3, phaseX = pi / 2, phaseY = 0\<rparr>,
      \<lparr>freqX = 1, freqY = 2, phaseX = 0, phaseY = pi / 3\<rparr>]"

definition harmonySpawn :: "real \<Rightarrow> real \<Rightarrow> string list \<Rightarrow> nat \<Rightarrow> engine \<Rightarrow> engine" where
  "harmonySpawn x y colors i s =
     (let angle = rand s 0 * pi * 2;
          r = 100 + rand s 1 * 150;
          px = x + cos angle * r;
          py = y + sin angle * r
      in addParticle (noConfig\<lparr>
           c_x := Some px,
           c_y := Some py,
           c_vx := Some ((rand s 2 - 0.5) * 2),
           c_vy := Some ((rand s 3 - 0.5) * 2),
           c_color := colorAt colors (int i),
           c_size := Some (5 + rand s 4 * 6),
           c_life := Some (500 + rand s 5 * 200),
           c_shape := Some Hexagon,
           c_mass := Some 1\<rparr>) (advance 6 s))"

definition createHarmony ::
  "real \<Rightarrow> real \<Rightarrow> real \<Rightarrow> string list \<Rightarrow> real \<Rightarrow> engine \<Rightarrow> engine" where
  "createHarmony x y count colors intensity s =
     (let s1 = fold (\<lambda>_. pushAttractor \<lparr>a_x = x, a_y = y, a_strength = 100 * intensity,
                       a_radius = 200, a_type = Pull\<rparr>) baseAttractors s;
          s2 = s1\<lparr>lissajous := Some baseAttractors\<rparr>
      in for_lt 0 count (harmonySpawn x y colors) s2)"

subsection \<open>helix\<close>

definition helixSpawn ::
  "real \<Rightarrow> real \<Rightarrow> real \<Rightarrow> string list \<Rightarrow> real \<Rightarrow> nat \<Rightarrow> int \<Rightarrow> nat \<Rightarrow> engine \<Rightarrow> engine"
  where
  "helixSpawn x y height colors intensity strand particlesPerStrand i s =
     (let helixRadius = 80;
          verticalSpeed = 3 * intensity;
          phaseOffset = real strand * pi;
          angle = (real i / of_int particlesPerStrand) * pi * 6 + phaseOffset;
          yOffset = (real i / of_int particlesPerStrand) * height * 0.8;
          px = x + cos angle * helixRadius;
          py = y - height * 0.4 + yOffset;
          tangent = angle + pi / 2
      in addParticle (noConfig\<lparr>
           c_x := Some px,
           c_y := Some py,
           c_vx := Some (cos tangent * 2 * intensity),
           c_vy := Some (verticalSpeed + sin angle * 0.5),
           c_color := (if strand = 0 then colorAt colors 0
                       else if colors = [] then None else Some (last colors)),
           c_size := Some (6 + rand s 0 * 5),
           c_life := Some (250 + rand s 1 * 100),
           c_shape := Some Circle,
           c_mass := Some 0.9,
           c_spiralAngle := Some angle\<rparr>) (advance 2 s))"

definition createHelix ::
  "real \<Rightarrow> real \<Rightarrow> real \<Rightarrow> string list \<Rightarrow> real \<Rightarrow> engine \<Rightarrow> engine" where
  "createHelix x y count colors intensity s =
     (let height = innerHeight s;
          particlesPerStrand = \<lfloor>count / 2\<rfloor>
      in for_lt 0 2
           (\<lambda>strand. for_lt 0 (of_int particlesPerStrand)
              (helixSpawn x y height colors intensity strand particlesPerStrand)) s)"

subsection \<open>bloom\<close>

definition bloomSpawn ::
  "real \<Rightarrow> real \<Rightarrow> string list \<Rightarrow> real \<Rightarrow> nat \<Rightarrow> nat \<Rightarrow> nat \<Rightarrow> engine \<Rightarrow> engine" where
  "bloomSpawn x y colors intensity petal layer i s =
     (let baseAngle = (real petal / 8) * pi * 2;
          layerRadius = 30 + real layer * 50;
          angle = baseAngle + (rand s 0 - 0.5) * 0.3;
          r = layerRadius + rand s 1 * 30;
          px = x + cos angle * r;
          py = y + sin angle * r;
          outwardSpeed = (1 + real layer * 0.5) * intensity;
          tangentSpeed = 0.5 * intensity
      in addParticle (noConfig\<lparr>
           c_x := Some px,
           c_y := Some py,
           c_vx := Some (cos angle * outwardSpeed + cos (angle + pi / 2) * tangentSpeed),
           c_vy := Some (sin angle * outwardSpeed + sin (angle + pi / 2) * tangentSpeed),
           c_color := colorAt colors (int (petal + layer)),
           c_size := Some (8 + rand s 2 * 8 - real layer * 1.5),
           c_life := Some (200 + real layer * 50 + rand s 3 * 100),
           c_shape := Some (if layer = 0 then Heart else Circle),
           c_mass := Some 0.8\<rparr>) (advance 4 s))"

definition createBloom ::
  "real \<Rightarrow> real \<Rightarrow> real \<Rightarrow> string list \<Rightarrow> real \<Rightarrow> engine \<Rightarrow> engine" where
  "createBloom x y count colors intensity s =
     (let particlesPerPetal = \<lfloor>count / 8\<rfloor>;
          s1 = pushAttractor \<lparr>a_x = x, a_y = y, a_strength = 50 * intensity,
                              a_radius = 200, a_type = Pull\<rparr> s
      in for_lt 0 8
           (\<lambda>petal. for_lt 0 4
              (\<lambda>layer. let layerParticles = \<lfloor>of_int particlesPerPetal / (4 :: real)\<rfloor>
                        in for_lt 0 (of_int layerParticles)
                             (bloomSpawn x y colors intensity petal layer))) s1)"

subsection \<open>constellation\<close>

text \<open>The position of star \<open>i\<close> and the test \<^verbatim>\<open>px > 50 && px < width - 50 && ...\<close>.\<close>

definition constellationInside :: "real \<Rightarrow> real \<Rightarrow> nat \<Rightarrow> bool" where
  "constellationInside width height i =
     (let goldenAngle = pi * (3 - sqrt 5);
          angle = real i * goldenAngle;
          r = sqrt (real i) * 30;
          px = width / 2 + cos angle * r;
          py = height / 2 + sin angle * r
      in px > 50 \<and> px < width - 50 \<and> py > 50 \<and> py < height - 50)"

definition constellationSpawn ::
  "real \<Rightarrow> real \<Rightarrow> string list \<Rightarrow> nat \<Rightarrow> engine \<Rightarrow> engine" where
  "constellationSpawn width height colors i s =
     (let goldenAngle = pi * (3 - sqrt 5);
          angle = real i * goldenAngle;
          r = sqrt (real i) * 30;
          px = width / 2 + cos angle * r;
          py = height / 2 + sin angle * r
      in if constellationInside width height i then
           addParticle (noConfig\<lparr>
             c_x := Some px,
             c_y := Some py,
             c_vx := Some ((rand s 0 - 0.5) * 0.5),
             c_vy := Some ((rand s 1 - 0.5) * 0.5),
             c_color := colorAt colors (int i),
             c_size := Some (3 + rand s 2 * 5),
             c_life := Some (400 + rand s 3 * 200),
             c_shape := Some Star,
             c_mass := Some 0.5\<rparr>) (advance 4 s)
         else s)"

definition createConstellation :: "real \<Rightarrow> string list \<Rightarrow> real \<Rightarrow> engine \<Rightarrow> engine" where
  "createConstellation count colors intensity s =
     for_lt 0 count (constellationSpawn (innerWidth s) (innerHeight s) colors) s"

subsection \<open>nebula\<close>

definition nebulaDensity :: "real \<Rightarrow> real \<Rightarrow> real \<Rightarrow> nat \<Rightarrow> engine \<Rightarrow> engine" where
  "nebulaDensity x y intensity i s =
     (let offsetX = (rand s 0 - 0.5) * 200;
          offsetY = (rand s 1 - 0.5) * 200;
          gridX = (x + offsetX) / 20;
          gridY = (y + offsetY) / 20
      in fluidCall (AddDensity gridX gridY (80 * intensity) 8) (advance 2 s))"

definition nebulaSpawn :: "real \<Rightarrow> real \<Rightarrow> string list \<Rightarrow> nat \<Rightarrow> engine \<Rightarrow> engine" where
  "nebulaSpawn x y colors i s =
     (let angle = rand s 0 * pi * 2;
          u = rand s 1;
          v = rand s 2;
          r = sqrt (- 2 * ln u) * cos (2 * pi * v) * 100;
          px = x + cos angle * r;
          py = y + sin angle * r
      in addParticle (noConfig\<lparr>
           c_x := Some px,
           c_y := Some py,
           c_vx := Some ((rand s 3 - 0.5) * 1.5),
           c_vy := Some ((rand s 4 - 0.5) * 1.5),
           c_color := colorAt colors (int i),
           c_size := Some (15 + rand s 5 * 25),
           c_life := Some (250 + rand s 6 * 150),
           c_shape := Some Circle,
           c_mass := Some 0.4\<rparr>) (advance 7 s))"

definition createNebula ::
  "real \<Rightarrow> real \<Rightarrow> real \<Rightarrow> string list \<Rightarrow> real \<Rightarrow> engine \<Rightarrow> engine" where
  "createNebula x y count colors intensity s =
     (let s1 = (if fluid s \<noteq> None then for_lt 0 5 (nebulaDensity x y intensity) s else s)
      in for_lt 0 count (nebulaSpawn x y colors) s1)"

section \<open>Delayed callbacks\<close>

fun runCallback :: "callback \<Rightarrow> engine \<Rightarrow> engine" where
  "runCallback (SupernovaRing x y count colors intensity) s =
     for_lt 0 (count * 0.4) (supernovaRing x y colors intensity) s"
| "runCallback (ResonancePulse x y) s = resonancePulse x y s"
| "runCallback (CascadeSpawn width colors) s = cascadeSpawn width colors s"
| "runCallback (EmergenceSpawn x y i colors) s = emergenceSpawn x y i colors s"

section \<open>Animation loop\<close>

definition lissajousStep :: "lissajous_params list \<Rightarrow> nat \<Rightarrow> engine \<Rightarrow> engine" where
  "lissajousStep ls i s =
     (let centerX = innerWidth s / 2;
          centerY = innerHeight s / 2;
          amplitude = 150
      in if i < length ls then
           (let params = ls ! i
            in s\<lparr>attractors := (attractors s)[i := (attractors s ! i)\<lparr>
                  a_x := centerX + sin (time s * 0.02 * freqX params + phaseX params) * amplitude,
                  a_y := centerY + sin (time s * 0.02 * freqY params + phaseY params) * amplitude
                 \<rparr>]\<rparr>)
         else s)"

text \<open>
  \<^verbatim>\<open>animate\<close>: one tick. \<^verbatim>\<open>render\<close> draws the state on the canvas and changes nothing
  that the simulation reads, so it does not appear.
\<close>

definition animate :: "engine \<Rightarrow> engine" where
  "animate s0 =
     (let dt = 1;
          s1 = s0\<lparr>time := time s0 + dt\<rparr>;
          s2 = (case lissajous s1 of
                  Some ls \<Rightarrow>
                    if length (attractors s1) \<ge> 3 then
                      for_lt 0 (real (min 3 (length (attractors s1)))) (lissajousStep ls) s1
                    else s1
                | None \<Rightarrow> s1);
          s3 = fluidCall (FluidStep (dt * 0.016)) s2;
          s4 = flowCall (FlowUpdate dt) s3;
          updated = map (\<lambda>e. (fst e, updateParticle s4 (snd e) dt)) (particles s4);
          deadParticles = map (\<lambda>e. p_id (snd e))
                            (filter (\<lambda>e. p_life (snd e) \<le> 0 \<or> p_opacity (snd e) \<le> 0) updated);
          s5 = s4\<lparr>particles := fold map_delete deadParticles updated\<rparr>
      in if length (particles s5) > 0 \<or> length (attractors s5) > 0 then
           requestAnimationFrame s5
         else s5\<lparr>animationId := None, lissajous := None\<rparr>)"

section \<open>Public interface\<close>

record emotion_context =
  valence :: real
  arousal :: real
  dominantEmotion :: "string option"

record PhysicsCelebrationConfig =
  cfg_type :: string
  cfg_origin :: "(real \<times> real) option"
  cfg_count :: "real option"
  cfg_colors :: "string list option"
  cfg_intensity :: "real option"
  cfg_heartRate :: "real option"
  cfg_emotionContext :: "emotion_context option"

definition EMOTION_PALETTES :: "(string \<times> string list) list" where
  "EMOTION_PALETTES =
     [(''joy'', [''#fbbf24'', ''#f59e0b'', ''#fcd34d'', ''#fef3c7'', ''#fff7ed'']),
      (''serenity'', [''#10b981'', ''#34d399'', ''#6ee7b7'', ''#a7f3d0'', ''#d1fae5'']),
      (''excitement'', [''#f43f5e'', ''#fb7185'', ''#fda4af'', ''#fbbf24'', ''#fcd34d'']),
      (''love'', [''#ec4899'', ''#f472b6'', ''#f9a8d4'', ''#f43f5e'', ''#fb7185'']),
      (''triumph'', [''#a855f7'', ''#c084fc'', ''#d8b4fe'', ''#fbbf24'', ''#fcd34d'']),
      (''gratitude'', [''#14b8a6'', ''#2dd4bf'', ''#5eead4'', ''#99f6e4'', ''#10b981'']),
      (''wonder'', [''#0ea5e9'', ''#38bdf8'', ''#7dd3fc'', ''#bae6fd'', ''#a855f7'']),
      (''peace'', [''#10b981'', ''#14b8a6'', ''#2dd4bf'', ''#5eead4'', ''#a7f3d0'']),
      (''default'', [''#10b981'', ''#34d399'', ''#14b8a6'', ''#2dd4bf'', ''#fbbf24''])]"

definition BRAND_COLORS_emerald :: "string list" where
  "BRAND_COLORS_emerald = [''#10b981'', ''#34d399'', ''#6ee7b7'', ''#a7f3d0'']"

definition BRAND_COLORS_teal :: "string list" where
  "BRAND_COLORS_teal = [''#14b8a6'', ''#2dd4bf'', ''#5eead4'', ''#99f6e4'']"

text \<open>\<^verbatim>\<open>toLowerCase\<close> on the ASCII letters.\<close>

definition toLowerCase :: "string \<Rightarrow> string" where
  "toLowerCase str =
     map (\<lambda>c. let n = (of_char c :: nat) in if 65 \<le> n \<and> n \<le> 90 then char_of (n + 32) else c) str"

definition getColorsForEmotion :: "string option \<Rightarrow> string list" where
  "getColorsForEmotion emotion =
     (case emotion of
        Some e \<Rightarrow>
          (if e \<noteq> [] then
             (case map_of EMOTION_PALETTES (toLowerCase e) of
                Some palette \<Rightarrow> palette
              | None \<Rightarrow> BRAND_COLORS_emerald @ BRAND_COLORS_teal)
           else BRAND_COLORS_emerald @ BRAND_COLORS_teal)
      | None \<Rightarrow> BRAND_COLORS_emerald @ BRAND_COLORS_teal)"

definition isEnabled :: "engine \<Rightarrow> bool" where
  "isEnabled s = (enabled s \<and> \<not> prefersReducedMotion s)"

text \<open>The \<^verbatim>\<open>switch (type)\<close> of \<^verbatim>\<open>celebrate\<close>; it has no \<^verbatim>\<open>default\<close> branch.\<close>

definition dispatch ::
  "string \<Rightarrow> real \<Rightarrow> real \<Rightarrow> real \<Rightarrow> string list \<Rightarrow> real \<Rightarrow> real option \<Rightarrow> engine \<Rightarrow> engine"
  where
  "dispatch type originX originY count colors intensity heartRate s =
     (if type = ''vortex'' then createVortex originX originY count colors intensity s
      else if type = ''supernova'' then createSupernova originX originY count colors intensity s
      else if type = ''aurora'' then createAurora count colors intensity s
      else if type = ''resonance'' then
        createResonance originX originY count colors intensity heartRate s
      else if type = ''orbit'' then createOrbit originX originY count colors intensity s
      else if type = ''cascade'' then createCascade count colors intensity s
      else if type = ''emergence'' then createEmergence originX originY count colors intensity s
      else if type = ''harmony'' then createHarmony originX originY count colors intensity s
      else if type = ''helix'' then createHelix originX originY count colors intensity s
      else if type = ''bloom'' then createBloom originX originY count colors intensity s
      else if type = ''constellation'' then createConstellation count colors intensity s
      else if type = ''nebula'' then createNebula originX originY count colors intensity s
      else s)"

definition celebrate :: "PhysicsCelebrationConfig \<Rightarrow> engine \<Rightarrow> engine" where
  "celebrate config s =
     (if \<not> isEnabled s then s
      else
        (let type = cfg_type config;
             origin = orElse (cfg_origin config) (0.5, 0.5);
             count = orElse (cfg_count config) 100;
             colors = orElse (cfg_colors config)
                        (getColorsForEmotion
                           (case cfg_emotionContext config of
                              Some ec \<Rightarrow> dominantEmotion ec | None \<Rightarrow> None));
             intensity = orElse (cfg_intensity config) 1;
             heartRate = cfg_heartRate config;
             originX = fst origin * innerWidth s;
             originY = snd origin * innerHeight s;
             s1 = s\<lparr>attractors := []\<rparr>;
             s2 = dispatch type originX originY count colors intensity heartRate s1
         in if animationId s2 = None then animate s2 else s2))"

definition clear :: "engine \<Rightarrow> engine" where
  "clear s =
     (let s1 = s\<lparr>particles := [], attractors := []\<rparr>;
          s2 = fluidCall FluidClear s1;
          s3 = flowCall FlowClear s2;
          s4 = (case animationId s3 of
                  Some h \<Rightarrow> (cancelAnimationFrame h s3)\<lparr>animationId := None\<rparr>
                | None \<Rightarrow> s3)
      in s4\<lparr>lissajous := None\<rparr>)"

definition setEnabled :: "bool \<Rightarrow> engine \<Rightarrow> engine" where
  "setEnabled b s = (let s1 = s\<lparr>enabled := b\<rparr> in if \<not> b then clear s1 else s1)"

text \<open>
  The constructor, run in a browser: an empty engine with both fields created. The
  viewport, the reduced-motion preference, the random values and the two field readers
  are given by the host.
\<close>

definition newEngine ::
  "real \<Rightarrow> real \<Rightarrow> bool \<Rightarrow> (nat \<Rightarrow> real) \<Rightarrow>
   (fluid_call list \<Rightarrow> real \<Rightarrow> real \<Rightarrow> real \<times> real) \<Rightarrow>
   (flow_call list \<Rightarrow> real \<Rightarrow> real \<Rightarrow> real \<times> real) \<Rightarrow> engine" where
  "newEngine width height reduced r gv smp =
     \<lparr>particles = [], attractors = [], fluid = Some [], flowField = Some [],
      animationId = None, time = 0, particleIdCounter = 0, enabled = True,
      prefersReducedMotion = reduced, lissajous = None,
      innerWidth = width, innerHeight = height, timers = [], frames = [], nextHandle = 1,
      rnd = r, rpos = 0, getVelocity = gv, sample = smp\<rparr>"

section \<open>Host events\<close>

text \<open>
  The browser runs the \<open>k\<close>-th pending timeout, runs the frame request with handle \<open>h\<close>,
  or reports a change of the reduced-motion preference.
\<close>

definition timeoutFires :: "nat \<Rightarrow> engine \<Rightarrow> engine" where
  "timeoutFires k s =
     (if k < length (timers s) then
        runCallback (snd (timers s ! k)) (s\<lparr>timers := take k (timers s) @ drop (Suc k) (timers s)\<rparr>)
      else s)"

definition frameFires :: "nat \<Rightarrow> engine \<Rightarrow> engine" where
  "frameFires h s =
     (if h \<in> set (frames s) then animate (s\<lparr>frames := removeAll h (frames s)\<rparr>) else s)"

definition mediaQueryChange :: "bool \<Rightarrow> engine \<Rightarrow> engine" where
  "mediaQueryChange b s = s\<lparr>prefersReducedMotion := b\<rparr>"

section \<open>Invariants and reachable states\<close>

text \<open>
  What holds of the particle map between any two steps of the engine: keys are unique,
  each particle is stored under its own id, every id in use is below the counter, no
  particle has more life left than it started with, and every opacity is between 0 and 1.
\<close>

definition engine_inv :: "engine \<Rightarrow> bool" where
  "engine_inv s \<longleftrightarrow>
     distinct (map fst (particles s)) \<and>
     (\<forall>e \<in> set (particles s).
        fst e < particleIdCounter s \<and> p_id (snd e) = fst e \<and>
        p_life (snd e) \<le> p_maxLife (snd e) \<and>
        0 \<le> p_opacity (snd e) \<and> p_opacity (snd e) \<le> 1)"

text \<open>\<^verbatim>\<open>Math.random()\<close> returns values in \<open>[0, 1)\<close>.\<close>

definition rnd_ok :: "engine \<Rightarrow> bool" where
  "rnd_ok s \<longleftrightarrow> (\<forall>n. 0 \<le> rnd s n \<and> rnd s n < 1)"

definition knownTypes :: "string list" where
  "knownTypes = [''vortex'', ''supernova'', ''aurora'', ''resonance'', ''orbit'', ''cascade'',
     ''emergence'', ''harmony'', ''helix'', ''bloom'', ''constellation'', ''nebula'']"

text \<open>
  The states of an engine created in a browser and then driven through its public
  methods and by the host's events.
\<close>

inductive reachable :: "engine \<Rightarrow> bool" where
  r_new: "(\<forall>n. 0 \<le> r n \<and> r n < 1) \<Longrightarrow> reachable (newEngine width height reduced r gv smp)"
| r_celebrate: "reachable s \<Longrightarrow> reachable (celebrate config s)"
| r_clear: "reachable s \<Longrightarrow> reachable (clear s)"
| r_setEnabled: "reachable s \<Longrightarrow> reachable (setEnabled b s)"
| r_timeout: "reachable s \<Longrightarrow> reachable (timeoutFires k s)"
| r_frame: "reachable s \<Longrightarrow> reachable (frameFires h s)"
| r_media: "reachable s \<Longrightarrow> reachable (mediaQueryChange b s)"

text \<open>
  \<open>spawns k s s'\<close>: from a well-formed state \<open>s\<close>, the step to \<open>s'\<close> keeps every entry of the
  particle map, appends exactly \<open>k\<close> new particles, each with more than one tick of life,
  and leaves the state well-formed.
\<close>

definition spawns :: "nat \<Rightarrow> engine \<Rightarrow> engine \<Rightarrow> bool" where
  "spawns k s s' \<longleftrightarrow>
     (engine_inv s \<and> rnd_ok s \<longrightarrow>
        engine_inv s' \<and> rnd_ok s' \<and>
        (\<exists>new. particles s' = particles s @ new \<and> length new = k \<and>
                (\<forall>e \<in> set new. 1 < p_life (snd e))))"

text \<open>
  \<open>spawn_only s s'\<close>: the step from \<open>s\<close> to \<open>s'\<close> changes at most the particle map, the id
  counter and the position in the random sequence. \<open>recipe_step s s'\<close>: it changes at most
  those and the attractor list, the two fields, the Lissajous parameters and the pending
  timeouts.
\<close>

definition spawn_only :: "engine \<Rightarrow> engine \<Rightarrow> bool" where
  "spawn_only s s' \<longleftrightarrow>
     s' = s\<lparr>particles := particles s', particleIdCounter := particleIdCounter s',
            rpos := rpos s'\<rparr>"

definition recipe_step :: "engine \<Rightarrow> engine \<Rightarrow> bool" where
  "recipe_step s s' \<longleftrightarrow>
     s' = s\<lparr>particles := particles s', particleIdCounter := particleIdCounter s',
            rpos := rpos s', attractors := attractors s', fluid := fluid s',
            flowField := flowField s', lissajous := lissajous s', timers := timers s'\<rparr>"

text \<open>
  At most one frame request is pending, and its handle is the one in \<^verbatim>\<open>animationId\<close>.
\<close>

definition frames_inv :: "engine \<Rightarrow> bool" where
  "frames_inv s \<longleftrightarrow> frames s = (case animationId s of Some h \<Rightarrow> [h] | None \<Rightarrow> [])"

text \<open>
  The number of \<^verbatim>\<open>addParticle\<close> calls that the recipe named \<open>type\<close> makes before it returns,
  read off the loop bounds of the recipes, and the attractors it pushes.
\<close>

definition spawnCount :: "string \<Rightarrow> real \<Rightarrow> real \<Rightarrow> real \<Rightarrow> nat" where
  "spawnCount type count width height =
     (if type = ''vortex'' then nat \<lceil>count\<rceil>
      else if type = ''supernova'' then nat \<lceil>count * 0.6\<rceil>
      else if type = ''aurora'' then 4 * nat \<lfloor>count / 4\<rfloor>
      else if type = ''resonance'' then 4 * nat \<lfloor>count / 4\<rfloor>
      else if type = ''orbit'' then 3 * nat \<lfloor>count / 3\<rfloor>
      else if type = ''cascade'' then 0
      else if type = ''emergence'' then 0
      else if type = ''harmony'' then nat \<lceil>count\<rceil>
      else if type = ''helix'' then 2 * nat \<lfloor>count / 2\<rfloor>
      else if type = ''bloom'' then 8 * (4 * nat \<lfloor>of_int \<lfloor>count / 8\<rfloor> / (4 :: real)\<rfloor>)
      else if type = ''constellation'' then
        length (filter (constellationInside width height) [0 ..< nat \<lceil>count\<rceil>])
      else if type = ''nebula'' then nat \<lceil>count\<rceil>
      else 0)"

definition installedAttractors :: "string \<Rightarrow> real \<Rightarrow> real \<Rightarrow> real \<Rightarrow> Attractor list" where
  "installedAttractors type x y intensity =
     (if type = ''vortex'' then
        [\<lparr>a_x = x, a_y = y, a_strength = 200 * intensity, a_radius = 400, a_type = Vortex\<rparr>]
      else if type = ''resonance'' then
        [\<lparr>a_x = x, a_y = y, a_strength = 150 * intensity, a_radius = 300, a_type = Pull\<rparr>]
      else if type = ''orbit'' then
        [\<lparr>a_x = x, a_y = y, a_strength = 300 * intensity, a_radius = 250, a_type = Orbit\<rparr>,
         \<lparr>a_x = x - 150, a_y = y + 100, a_strength = 200 * intensity, a_radius = 250,
          a_type = Orbit\<rparr>,
         \<lparr>a_x = x + 150, a_y = y + 100, a_strength = 200 * intensity, a_radius = 250,
          a_type = Orbit\<rparr>]
      else if type = ''harmony'' then
        replicate 3
          \<lparr>a_x = x, a_y = y, a_strength = 100 * intensity, a_radius = 200, a_type = Pull\<rparr>
      else if type = ''bloom'' then
        [\<lparr>a_x = x, a_y = y, a_strength = 50 * intensity, a_radius = 200, a_type = Pull\<rparr>]
      else [])"

text \<open>The number of particles a delayed callback adds when it runs.\<close>

fun callbackCount :: "callback \<Rightarrow> nat" where
  "callbackCount (SupernovaRing x y count colors intensity) = nat \<lceil>count * 0.4\<rceil>"
| "callbackCount (ResonancePulse x y) = 0"
| "callbackCount (CascadeSpawn width colors) = 1"
| "callbackCount (EmergenceSpawn x y i colors) = 1"

text \<open>
  The two halves of \<^verbatim>\<open>animate\<close> before it decides whether to go on: the clock, the
  Lissajous attractors and the two fields; then the update of every particle and the
  removal of the dead ones.
\<close>

definition tickPrepare :: "engine \<Rightarrow> engine" where
  "tickPrepare s0 =
     (let s1 = s0\<lparr>time := time s0 + 1\<rparr>;
          s2 = (case lissajous s1 of
                  Some ls \<Rightarrow>
                    if length (attractors s1) \<ge> 3 then
                      for_lt 0 (real (min 3 (length (attractors s1)))) (lissajousStep ls) s1
                    else s1
                | None \<Rightarrow> s1)
      in flowCall (FlowUpdate 1) (fluidCall (FluidStep (1 * 0.016)) s2))"

definition tickParticles :: "engine \<Rightarrow> engine" where
  "tickParticles s4 =
     (let updated = map (\<lambda>e. (fst e, updateParticle s4 (snd e) 1)) (particles s4);
          deadParticles = map (\<lambda>e. p_id (snd e))
                            (filter (\<lambda>e. p_life (snd e) \<le> 0 \<or> p_opacity (snd e) \<le> 0) updated)
      in s4\<lparr>particles := fold map_delete deadParticles updated\<rparr>)"

text \<open>Concrete inputs for the examples: a 1000 by 800 viewport, still fields.\<close>

definition exampleEngine :: engine where
  "exampleEngine = newEngine 1000 800 False (\<lambda>_. 1 / 2) (\<lambda>_ _ _. (0, 0)) (\<lambda>_ _ _. (0, 0))"

definition exampleConfig :: "string \<Rightarrow> real \<Rightarrow> PhysicsCelebrationConfig" where
  "exampleConfig type count =
     \<lparr>cfg_type = type, cfg_origin = None, cfg_count = Some count, cfg_colors = None,
      cfg_intensity = None, cfg_heartRate = None, cfg_emotionContext = None\<rparr>"

text \<open>A particle at the origin, at rest, with 100 of 150 ticks of life left.\<close>

definition exampleParticle :: PhysicsParticle where
  "exampleParticle =
     \<lparr>p_id = 0, p_x = 0, p_y = 0, p_vx = 0, p_vy = 0, p_ax = 0, p_ay = 0, p_size = 8,
      p_rotation = 0, p_rotationVelocity = 0, p_color = ''#10b981'', p_opacity = 1,
      p_life = 100, p_maxLife = 150, p_mass = 1, p_shape = Square, p_trail = [],
      p_pulsePhase = 0, p_spiralAngle = None\<rparr>"

text \<open>The state \<^verbatim>\<open>celebrate\<close> has reached after its \<^verbatim>\<open>switch\<close>, on an enabled engine: the
  defaults filled in, the origin scaled to the viewport, the attractor list emptied and the
  recipe run.\<close>

definition recipeState :: "PhysicsCelebrationConfig \<Rightarrow> engine \<Rightarrow> engine" where
  "recipeState config s =
     dispatch (cfg_type config)
       (fst (orElse (cfg_origin config) (0.5, 0.5)) * innerWidth s)
       (snd (orElse (cfg_origin config) (0.5, 0.5)) * innerHeight s)
       (orElse (cfg_count config) 100)
       (orElse (cfg_colors config)
          (getColorsForEmotion
             (case cfg_emotionContext config of
                Some ec \<Rightarrow> dominantEmotion ec | None \<Rightarrow> None)))
       (orElse (cfg_intensity config) 1)
       (cfg_heartRate config)
       (s\<lparr>attractors := []\<rparr>)"

text \<open>The timeouts that the recipe named \<open>type\<close> hands to \<^verbatim>\<open>setTimeout\<close> before it returns,
  with their delays, in the order of the calls.\<close>

definition scheduledTimers ::
  "string \<Rightarrow> real \<Rightarrow> real \<Rightarrow> real \<Rightarrow> string list \<Rightarrow> real \<Rightarrow> real option \<Rightarrow> real \<Rightarrow>
   (real \<times> callback) list" where
  "scheduledTimers type x y count colors intensity heartRate width =
     (if type = ''supernova'' then [(100, SupernovaRing x y count colors intensity)]
      else if type = ''resonance'' then
        map (\<lambda>i. (real i * (60000 / orElse heartRate 72), ResonancePulse x y)) [0 ..< 5]
      else if type = ''cascade'' then
        map (\<lambda>i. (real i * (2000 / count), CascadeSpawn width colors)) [0 ..< nat \<lceil>count\<rceil>]
      else if type = ''emergence'' then
        map (\<lambda>i. (real i * (1500 / count), EmergenceSpawn x y i colors)) [0 ..< nat \<lceil>count\<rceil>]
      else [])"


section \<open>Loops\<close>

lemma for_lt_fold: "for_lt i c body s = fold body [i ..< nat \<lceil>c\<rceil>] s"
proof (induction i c body s rule: for_lt.induct)
  case (1 i c body s)
  show ?case
  proof (cases "real i < c")
    case True
    then have lt: "i < nat \<lceil>c\<rceil>" by linarith
    have "for_lt i c body s = for_lt (Suc i) c body (body i s)"
      using True by (subst for_lt.simps) simp
    also have "\<dots> = fold body [Suc i ..< nat \<lceil>c\<rceil>] (body i s)"
      using "1.IH" True by simp
    also have "\<dots> = fold body [i ..< nat \<lceil>c\<rceil>] s"
      using lt by (simp add: upt_conv_Cons)
    finally show ?thesis .
  next
    case False
    then have "\<not> i < nat \<lceil>c\<rceil>" by linarith
    then show ?thesis using False by (subst for_lt.simps) simp
  qed
qed

lemma fold_invariant:
  assumes "\<And>x s. P s \<Longrightarrow> P (f x s)" and "P s"
  shows "P (fold f xs s)"
  using assms(2) by (induction xs arbitrary: s) (auto intro: assms(1))

lemma for_lt_invariant:
  assumes "\<And>i s. P s \<Longrightarrow> P (body i s)" and "P s"
  shows "P (for_lt i c body s)"
  unfolding for_lt_fold using assms by (rule fold_invariant)

lemma for_lt_field:
  assumes "\<And>i s. f (body i s) = f s"
  shows "f (for_lt i c body s) = f s"
  by (rule for_lt_invariant [where P = "\<lambda>t. f t = f s"]) (simp_all add: assms)

lemma fold_field:
  assumes "\<And>x s. f (g x s) = f s"
  shows "f (fold g xs s) = f s"
  by (rule fold_invariant [where P = "\<lambda>t. f t = f s"]) (simp_all add: assms)

lemma map_set_fresh: "k \<notin> fst ` set m \<Longrightarrow> map_set k v m = m @ [(k, v)]"
  by (induction m) auto

lemma spawns_refl: "spawns 0 s s"
  by (simp add: spawns_def)

lemma spawns_trans:
  assumes "spawns a s s'" and "spawns b s' s''"
  shows "spawns (a + b) s s''"
proof -
  {
    assume wf: "engine_inv s \<and> rnd_ok s"
    with assms(1) obtain new where
      1: "engine_inv s' \<and> rnd_ok s'" "particles s' = particles s @ new" "length new = a"
        "\<forall>e \<in> set new. 1 < p_life (snd e)"
      unfolding spawns_def by blast
    with assms(2) obtain new' where
      2: "engine_inv s'' \<and> rnd_ok s''" "particles s'' = particles s' @ new'" "length new' = b"
        "\<forall>e \<in> set new'. 1 < p_life (snd e)"
      unfolding spawns_def by blast
    have "particles s'' = particles s @ (new @ new') \<and> length (new @ new') = a + b \<and>
          (\<forall>e \<in> set (new @ new'). 1 < p_life (snd e))"
      using 1 2 by auto
    then have "engine_inv s'' \<and> rnd_ok s'' \<and>
        (\<exists>n. particles s'' = particles s @ n \<and> length n = a + b \<and>
             (\<forall>e \<in> set n. 1 < p_life (snd e)))"
      using 2(1) by blast
  }
  then show ?thesis unfolding spawns_def by blast
qed

lemma spawns_fold:
  assumes "\<And>x s. spawns (g x) s (f x s)"
  shows "spawns (sum_list (map g xs)) s (fold f xs s)"
proof (induction xs arbitrary: s)
  case Nil
  show ?case by (simp add: spawns_refl)
next
  case (Cons x xs)
  have "spawns (g x + sum_list (map g xs)) s (fold f xs (f x s))"
    by (rule spawns_trans [OF assms Cons.IH])
  then show ?case by simp
qed

lemma spawns_for_lt:
  assumes "\<And>i s. spawns (g i) s (body i s)"
  shows "spawns (sum_list (map g [i ..< nat \<lceil>c\<rceil>])) s (for_lt i c body s)"
  unfolding for_lt_fold by (rule spawns_fold) (rule assms)

lemma spawns_for_lt_const:
  assumes "\<And>i s. spawns k s (body i s)"
  shows "spawns (nat \<lceil>c\<rceil> * k) s (for_lt 0 c body s)"
  using spawns_for_lt [where g = "\<lambda>_. k" and body = body and i = 0 and c = c and s = s, OF assms]
  by (simp add: sum_list_replicate map_replicate_const)

lemma spawns_frame:
  assumes "particles s' = particles s" "particleIdCounter s' = particleIdCounter s"
    "rnd s' = rnd s"
  shows "spawns 0 s s'"
  using assms by (simp add: spawns_def engine_inv_def rnd_ok_def)

lemma rand_range: "rnd_ok s \<Longrightarrow> 0 \<le> rand s k \<and> rand s k < 1"
  by (simp add: rnd_ok_def rand_def)

lemma spawns_addParticle:
  assumes "c_life config = Some l" "1 < l"
  shows "spawns 1 s (addParticle config s)"
proof -
  {
    assume inv: "engine_inv s" and r: "rnd_ok s"
    let ?id = "particleIdCounter s"
    have fresh: "?id \<notin> fst ` set (particles s)"
      using inv by (auto simp: engine_inv_def)
    have ?thesis
      using inv r assms fresh
      apply (simp add: spawns_def addParticle_def Let_def map_set_fresh advance_def
          engine_inv_def rnd_ok_def orElse_def)
      by (auto simp: less_Suc_eq)
  }
  then show ?thesis by (auto simp: spawns_def)
qed

lemma engine_inv_newEngine: "engine_inv (newEngine w h red r gv smp)"
  by (simp add: engine_inv_def newEngine_def)

lemma engine_inv_fresh: "engine_inv s \<Longrightarrow> particleIdCounter s \<notin> fst ` set (particles s)"
  by (auto simp: engine_inv_def)

lemma engine_inv_example: "engine_inv exampleEngine"
  by (simp add: exampleEngine_def engine_inv_newEngine)

lemma example_fields:
  "particles exampleEngine = []" "particleIdCounter exampleEngine = 0"
  "attractors exampleEngine = []" "animationId exampleEngine = None"
  "enabled exampleEngine" "\<not> prefersReducedMotion exampleEngine"
  "timers exampleEngine = []" "lissajous exampleEngine = None"
  "fluid exampleEngine = Some []" "flowField exampleEngine = Some []"
  "innerWidth exampleEngine = 1000" "innerHeight exampleEngine = 800"
  by (simp_all add: exampleEngine_def newEngine_def)

section \<open>Claims about particle creation and the enabled flag\<close>

text \<open>
  C10. Immediately after every \<^verbatim>\<open>addParticle\<close> call the new particle has opacity 1, an
  empty trail, zero acceleration and \<open>maxLife\<close> equal to its life; it is stored under the
  fresh id after all existing entries, none of which is overwritten, so the number of live
  particles grows by exactly one.
\<close>

theorem addParticle_new_particle:
  assumes "engine_inv s"
  shows "\<exists>particle.
           particles (addParticle config s) = particles s @ [(particleIdCounter s, particle)] \<and>
           p_id particle = particleIdCounter s \<and>
           p_opacity particle = 1 \<and> p_trail particle = [] \<and>
           p_ax particle = 0 \<and> p_ay particle = 0 \<and>
           p_maxLife particle = p_life particle \<and>
           length (particles (addParticle config s)) = length (particles s) + 1 \<and>
           particleIdCounter (addParticle config s) = particleIdCounter s + 1"
  using engine_inv_fresh [OF assms]
  by (simp add: addParticle_def Let_def advance_def map_set_fresh)

theorem addParticle_new_particle_witness:
  "engine_inv exampleEngine \<and>
   (\<exists>particle.
      particles (addParticle noConfig exampleEngine) = [(0, particle)] \<and>
      p_opacity particle = 1 \<and> p_trail particle = [] \<and>
      p_ax particle = 0 \<and> p_ay particle = 0 \<and> p_maxLife particle = p_life particle \<and>
      length (particles (addParticle noConfig exampleEngine)) = 1)"
proof -
  have inv: "engine_inv exampleEngine"
    by (rule engine_inv_example)
  show ?thesis
    using inv addParticle_new_particle [OF inv, of noConfig] by (auto simp: example_fields)
qed

text \<open>
  C8. \<^verbatim>\<open>isEnabled()\<close> is false exactly when the engine is disabled or the reduced-motion
  preference is active, and while it is false \<^verbatim>\<open>celebrate\<close> returns the state as it was:
  particle map, attractor list, fields and everything else.
\<close>

theorem celebrate_disabled:
  "(\<not> isEnabled s \<longleftrightarrow> \<not> enabled s \<or> prefersReducedMotion s) \<and>
   (\<not> isEnabled s \<longrightarrow> celebrate config s = s)"
  by (simp add: isEnabled_def celebrate_def)

theorem celebrate_disabled_witness:
  "\<not> isEnabled (exampleEngine\<lparr>enabled := False\<rparr>) \<and>
   celebrate (exampleConfig ''vortex'' 10) (exampleEngine\<lparr>enabled := False\<rparr>) =
     exampleEngine\<lparr>enabled := False\<rparr>"
proof -
  have d: "\<not> isEnabled (exampleEngine\<lparr>enabled := False\<rparr>)"
    by (simp add: isEnabled_def)
  show ?thesis
    using d celebrate_disabled [of "exampleEngine\<lparr>enabled := False\<rparr>" "exampleConfig ''vortex'' 10"]
    by blast
qed

section \<open>Particle update: life and opacity\<close>

lemma applyAttractor_keeps:
  "p_life (applyAttractor a p) = p_life p"
  "p_maxLife (applyAttractor a p) = p_maxLife p"
  "p_id (applyAttractor a p) = p_id p"
  "p_opacity (applyAttractor a p) = p_opacity p"
  by (simp_all add: applyAttractor_def Let_def split: attractor_type.splits)

lemma fold_applyAttractor_keeps:
  "p_life (fold applyAttractor as p) = p_life p"
  "p_maxLife (fold applyAttractor as p) = p_maxLife p"
  "p_id (fold applyAttractor as p) = p_id p"
  by (rule fold_field, simp add: applyAttractor_keeps)+

lemma updateParticle_life: "p_life (updateParticle s p dt) = p_life p - dt"
  by (simp add: updateParticle_def pulse_def updateLife_def integrate_def applyFlow_def
      applyFluid_def resetAcceleration_def storeTrail_def Let_def fold_applyAttractor_keeps
      split: option.splits)

lemma updateParticle_maxLife: "p_maxLife (updateParticle s p dt) = p_maxLife p"
  by (simp add: updateParticle_def pulse_def updateLife_def integrate_def applyFlow_def
      applyFluid_def resetAcceleration_def storeTrail_def Let_def fold_applyAttractor_keeps
      split: option.splits)

lemma updateParticle_id: "p_id (updateParticle s p dt) = p_id p"
  by (simp add: updateParticle_def pulse_def updateLife_def integrate_def applyFlow_def
      applyFluid_def resetAcceleration_def storeTrail_def Let_def fold_applyAttractor_keeps
      split: option.splits)

lemma updateParticle_opacity:
  "p_opacity (updateParticle s p dt) = min 1 ((p_life p - dt) / p_maxLife p * 2)"
  by (simp add: updateParticle_def pulse_def updateLife_def integrate_def applyFlow_def
      applyFluid_def resetAcceleration_def storeTrail_def Let_def fold_applyAttractor_keeps
      split: option.splits)

lemma min_double_mono: "a \<le> b \<Longrightarrow> min 1 (a * 2) \<le> min (1::real) (b * 2)"
  by (simp add: min_def)

text \<open>
  C6. For a particle with \<open>maxLife > 0\<close>, one update decrements the life by \<open>dt\<close> and sets
  the opacity to \<open>min 1 (life / maxLife * 2)\<close> of the new life. Hence the opacity is 1 while
  the new life is at least \<open>maxLife / 2\<close>, it does not increase from one update to the next
  (for \<open>dt \<ge> 0\<close>; the engine uses \<open>dt = 1\<close>), and it is 0 exactly when the new life is 0.
\<close>

theorem opacity_fade:
  assumes "0 < p_maxLife p"
  shows "p_life (updateParticle s p dt) = p_life p - dt \<and>
         p_maxLife (updateParticle s p dt) = p_maxLife p \<and>
         p_opacity (updateParticle s p dt) = min 1 ((p_life p - dt) / p_maxLife p * 2) \<and>
         (p_maxLife p / 2 \<le> p_life p - dt \<longrightarrow> p_opacity (updateParticle s p dt) = 1) \<and>
         (0 \<le> dt \<longrightarrow>
            p_opacity (updateParticle s' (updateParticle s p dt) dt)
              \<le> p_opacity (updateParticle s p dt)) \<and>
         (p_opacity (updateParticle s p dt) = 0 \<longleftrightarrow> p_life p - dt = 0)"
proof -
  let ?m = "p_maxLife p" and ?l = "p_life p - dt"
  have full: "?m / 2 \<le> ?l \<longrightarrow> min 1 (?l / ?m * 2) = 1"
    using assms by (simp add: field_simps)
  have mono: "0 \<le> dt \<longrightarrow> min 1 ((?l - dt) / ?m * 2) \<le> min 1 (?l / ?m * 2)"
  proof
    assume "0 \<le> dt"
    then have "(?l - dt) / ?m \<le> ?l / ?m"
      using assms by (simp add: divide_right_mono)
    then show "min 1 ((?l - dt) / ?m * 2) \<le> min 1 (?l / ?m * 2)"
      by (rule min_double_mono)
  qed
  have zero: "min 1 (?l / ?m * 2) = 0 \<longleftrightarrow> ?l = 0"
    using assms by (auto simp: min_def)
  show ?thesis
    using full mono zero
    by (simp add: updateParticle_opacity updateParticle_life updateParticle_maxLife)
qed

theorem opacity_fade_witness:
  "0 < p_maxLife exampleParticle \<and>
   p_life (updateParticle exampleEngine exampleParticle 1) = 99 \<and>
   p_opacity (updateParticle exampleEngine exampleParticle 1) = 1"
proof -
  have m: "0 < p_maxLife exampleParticle" by (simp add: exampleParticle_def)
  have "p_life exampleParticle = 100" "p_maxLife exampleParticle = 150"
    by (simp_all add: exampleParticle_def)
  then show ?thesis
    using m opacity_fade [OF m, of exampleEngine 1 exampleEngine] by simp
qed

section \<open>Attractor forces\<close>











section \<open>What the primitive steps leave alone\<close>

lemma advance_fields [simp]:
  "particles (advance n s) = particles s"
  "attractors (advance n s) = attractors s"
  "fluid (advance n s) = fluid s"
  "flowField (advance n s) = flowField s"
  "animationId (advance n s) = animationId s"
  "time (advance n s) = time s"
  "particleIdCounter (advance n s) = particleIdCounter s"
  "enabled (advance n s) = enabled s"
  "prefersReducedMotion (advance n s) = prefersReducedMotion s"
  "lissajous (advance n s) = lissajous s"
  "innerWidth (advance n s) = innerWidth s"
  "innerHeight (advance n s) = innerHeight s"
  "timers (advance n s) = timers s"
  "frames (advance n s) = frames s"
  "nextHandle (advance n s) = nextHandle s"
  "rnd (advance n s) = rnd s"
  "getVelocity (advance n s) = getVelocity s"
  "sample (advance n s) = sample s"
  by (simp_all add: advance_def)

lemma fluidCall_fields [simp]:
  "particles (fluidCall c s) = particles s"
  "attractors (fluidCall c s) = attractors s"
  "flowField (fluidCall c s) = flowField s"
  "animationId (fluidCall c s) = animationId s"
  "time (fluidCall c s) = time s"
  "particleIdCounter (fluidCall c s) = particleIdCounter s"
  "enabled (fluidCall c s) = enabled s"
  "prefersReducedMotion (fluidCall c s) = prefersReducedMotion s"
  "lissajous (fluidCall c s) = lissajous s"
  "innerWidth (fluidCall c s) = innerWidth s"
  "innerHeight (fluidCall c s) = innerHeight s"
  "timers (fluidCall c s) = timers s"
  "frames (fluidCall c s) = frames s"
  "nextHandle (fluidCall c s) = nextHandle s"
  "rnd (fluidCall c s) = rnd s"
  "rpos (fluidCall c s) = rpos s"
  "getVelocity (fluidCall c s) = getVelocity s"
  "sample (fluidCall c s) = sample s"
  by (simp_all add: fluidCall_def split: option.splits)

lemma flowCall_fields [simp]:
  "particles (flowCall c s) = particles s"
  "attractors (flowCall c s) = attractors s"
  "fluid (flowCall c s) = fluid s"
  "animationId (flowCall c s) = animationId s"
  "time (flowCall c s) = time s"
  "particleIdCounter (flowCall c s) = particleIdCounter s"
  "enabled (flowCall c s) = enabled s"
  "prefersReducedMotion (flowCall c s) = prefersReducedMotion s"
  "lissajous (flowCall c s) = lissajous s"
  "innerWidth (flowCall c s) = innerWidth s"
  "innerHeight (flowCall c s) = innerHeight s"
  "timers (flowCall c s) = timers s"
  "frames (flowCall c s) = frames s"
  "nextHandle (flowCall c s) = nextHandle s"
  "rnd (flowCall c s) = rnd s"
  "rpos (flowCall c s) = rpos s"
  "getVelocity (flowCall c s) = getVelocity s"
  "sample (flowCall c s) = sample s"
  by (simp_all add: flowCall_def split: option.splits)

lemma pushAttractor_fields [simp]:
  "particles (pushAttractor a s) = particles s"
  "fluid (pushAttractor a s) = fluid s"
  "flowField (pushAttractor a s) = flowField s"
  "animationId (pushAttractor a s) = animationId s"
  "time (pushAttractor a s) = time s"
  "particleIdCounter (pushAttractor a s) = particleIdCounter s"
  "enabled (pushAttractor a s) = enabled s"
  "prefersReducedMotion (pushAttractor a s) = prefersReducedMotion s"
  "lissajous (pushAttractor a s) = lissajous s"
  "innerWidth (pushAttractor a s) = innerWidth s"
  "innerHeight (pushAttractor a s) = innerHeight s"
  "timers (pushAttractor a s) = timers s"
  "frames (pushAttractor a s) = frames s"
  "nextHandle (pushAttractor a s) = nextHandle s"
  "rnd (pushAttractor a s) = rnd s"
  "rpos (pushAttractor a s) = rpos s"
  "getVelocity (pushAttractor a s) = getVelocity s"
  "sample (pushAttractor a s) = sample s"
  by (simp_all add: pushAttractor_def)

lemma setTimeout_fields [simp]:
  "particles (setTimeout cb d s) = particles s"
  "attractors (setTimeout cb d s) = attractors s"
  "fluid (setTimeout cb d s) = fluid s"
  "flowField (setTimeout cb d s) = flowField s"
  "animationId (setTimeout cb d s) = animationId s"
  "time (setTimeout cb d s) = time s"
  "particleIdCounter (setTimeout cb d s) = particleIdCounter s"
  "enabled (setTimeout cb d s) = enabled s"
  "prefersReducedMotion (setTimeout cb d s) = prefersReducedMotion s"
  "lissajous (setTimeout cb d s) = lissajous s"
  "innerWidth (setTimeout cb d s) = innerWidth s"
  "innerHeight (setTimeout cb d s) = innerHeight s"
  "frames (setTimeout cb d s) = frames s"
  "nextHandle (setTimeout cb d s) = nextHandle s"
  "rnd (setTimeout cb d s) = rnd s"
  "rpos (setTimeout cb d s) = rpos s"
  "getVelocity (setTimeout cb d s) = getVelocity s"
  "sample (setTimeout cb d s) = sample s"
  by (simp_all add: setTimeout_def)

lemma requestAnimationFrame_fields [simp]:
  "particles (requestAnimationFrame s) = particles s"
  "attractors (requestAnimationFrame s) = attractors s"
  "fluid (requestAnimationFrame s) = fluid s"
  "flowField (requestAnimationFrame s) = flowField s"
  "time (requestAnimationFrame s) = time s"
  "particleIdCounter (requestAnimationFrame s) = particleIdCounter s"
  "enabled (requestAnimationFrame s) = enabled s"
  "prefersReducedMotion (requestAnimationFrame s) = prefersReducedMotion s"
  "lissajous (requestAnimationFrame s) = lissajous s"
  "innerWidth (requestAnimationFrame s) = innerWidth s"
  "innerHeight (requestAnimationFrame s) = innerHeight s"
  "timers (requestAnimationFrame s) = timers s"
  "rnd (requestAnimationFrame s) = rnd s"
  "rpos (requestAnimationFrame s) = rpos s"
  "getVelocity (requestAnimationFrame s) = getVelocity s"
  "sample (requestAnimationFrame s) = sample s"
  by (simp_all add: requestAnimationFrame_def)

lemma cancelAnimationFrame_fields [simp]:
  "particles (cancelAnimationFrame h s) = particles s"
  "attractors (cancelAnimationFrame h s) = attractors s"
  "fluid (cancelAnimationFrame h s) = fluid s"
  "flowField (cancelAnimationFrame h s) = flowField s"
  "animationId (cancelAnimationFrame h s) = animationId s"
  "time (cancelAnimationFrame h s) = time s"
  "particleIdCounter (cancelAnimationFrame h s) = particleIdCounter s"
  "enabled (cancelAnimationFrame h s) = enabled s"
  "prefersReducedMotion (cancelAnimationFrame h s) = prefersReducedMotion s"
  "lissajous (cancelAnimationFrame h s) = lissajous s"
  "innerWidth (cancelAnimationFrame h s) = innerWidth s"
  "innerHeight (cancelAnimationFrame h s) = innerHeight s"
  "timers (cancelAnimationFrame h s) = timers s"
  "nextHandle (cancelAnimationFrame h s) = nextHandle s"
  "rnd (cancelAnimationFrame h s) = rnd s"
  "rpos (cancelAnimationFrame h s) = rpos s"
  "getVelocity (cancelAnimationFrame h s) = getVelocity s"
  "sample (cancelAnimationFrame h s) = sample s"
  by (simp_all add: cancelAnimationFrame_def)

lemma addParticle_fields [simp]:
  "attractors (addParticle config s) = attractors s"
  "fluid (addParticle config s) = fluid s"
  "flowField (addParticle config s) = flowField s"
  "animationId (addParticle config s) = animationId s"
  "time (addParticle config s) = time s"
  "enabled (addParticle config s) = enabled s"
  "prefersReducedMotion (addParticle config s) = prefersReducedMotion s"
  "lissajous (addParticle config s) = lissajous s"
  "innerWidth (addParticle config s) = innerWidth s"
  "innerHeight (addParticle config s) = innerHeight s"
  "timers (addParticle config s) = timers s"
  "frames (addParticle config s) = frames s"
  "nextHandle (addParticle config s) = nextHandle s"
  "rnd (addParticle config s) = rnd s"
  "getVelocity (addParticle config s) = getVelocity s"
  "sample (addParticle config s) = sample s"
  by (simp_all add: addParticle_def Let_def advance_def)

lemma rand_fields [simp]:
  "rand (fluidCall c s) k = rand s k" "rand (flowCall fc s) k = rand s k"
  "rand (pushAttractor a s) k = rand s k" "rand (setTimeout cb d s) k = rand s k"
  by (simp_all add: rand_def)

lemma fluidCall_fluid [simp]:
  "fluid (fluidCall c s) = map_option (\<lambda>fl. fl @ [c]) (fluid s)"
  by (simp add: fluidCall_def split: option.splits)

lemma flowCall_flowField [simp]:
  "flowField (flowCall c s) = map_option (\<lambda>ff. ff @ [c]) (flowField s)"
  by (simp add: flowCall_def split: option.splits)

lemma pushAttractor_attractors [simp]: "attractors (pushAttractor a s) = attractors s @ [a]"
  by (simp add: pushAttractor_def)

lemma setTimeout_timers [simp]: "timers (setTimeout cb d s) = timers s @ [(d, cb)]"
  by (simp add: setTimeout_def)

lemma for_lt_zero [simp]: "c \<le> 0 \<Longrightarrow> for_lt i c body s = s"
  by (subst for_lt.simps) simp

section \<open>Steps that only spawn\<close>

lemma spawn_only_refl: "spawn_only s s"
  by (simp add: spawn_only_def)

lemma spawn_only_trans: "spawn_only s s' \<Longrightarrow> spawn_only s' s'' \<Longrightarrow> spawn_only s s''"
proof -
  assume a: "spawn_only s s'" and b: "spawn_only s' s''"
  have "s'' = s'\<lparr>particles := particles s'', particleIdCounter := particleIdCounter s'',
            rpos := rpos s''\<rparr>"
    using b by (simp add: spawn_only_def)
  also have "s' = s\<lparr>particles := particles s', particleIdCounter := particleIdCounter s',
            rpos := rpos s'\<rparr>"
    using a by (simp add: spawn_only_def)
  finally show ?thesis by (simp add: spawn_only_def)
qed

lemma spawn_only_step: "spawn_only s (addParticle config (advance n s))"
  by (simp add: spawn_only_def addParticle_def Let_def advance_def)

lemma spawn_only_for_lt:
  assumes "\<And>i s. spawn_only s (body i s)"
  shows "spawn_only s (for_lt i c body s)"
  by (rule for_lt_invariant [where P = "spawn_only s"])
     (auto intro: spawn_only_trans assms spawn_only_refl)

lemma spawn_only_fold:
  assumes "\<And>x s. spawn_only s (f x s)"
  shows "spawn_only s (fold f xs s)"
  by (rule fold_invariant [where P = "spawn_only s"])
     (auto intro: spawn_only_trans assms spawn_only_refl)

lemma spawn_only_fields:
  assumes "spawn_only s s'"
  shows "attractors s' = attractors s" "fluid s' = fluid s" "flowField s' = flowField s"
    "animationId s' = animationId s" "time s' = time s" "enabled s' = enabled s"
    "prefersReducedMotion s' = prefersReducedMotion s" "lissajous s' = lissajous s"
    "innerWidth s' = innerWidth s" "innerHeight s' = innerHeight s" "timers s' = timers s"
    "frames s' = frames s" "nextHandle s' = nextHandle s" "rnd s' = rnd s"
    "getVelocity s' = getVelocity s" "sample s' = sample s"
  by (subst assms [unfolded spawn_only_def], simp)+

lemma spawn_step:
  assumes "rnd_ok s \<Longrightarrow> \<exists>l. c_life config = Some l \<and> 1 < l"
  shows "spawns 1 s (addParticle config (advance n s))"
proof -
  {
    assume wf: "engine_inv s" "rnd_ok s"
    then obtain l where l: "c_life config = Some l" "1 < l" using assms by blast
    have "spawns 0 s (advance n s)" by (rule spawns_frame) simp_all
    from spawns_trans [OF this spawns_addParticle [OF l]]
    have "spawns 1 s (addParticle config (advance n s))" by simp
  }
  then show ?thesis by (auto simp: spawns_def)
qed

section \<open>The spawn steps of the recipes\<close>

lemma vortexSpawn_spawns: "spawns 1 s (vortexSpawn x y count colors i s)"
  unfolding vortexSpawn_def Let_def
  by (rule spawn_step) (use rand_range [of s 4] in simp)

lemma vortexSpawn_only: "spawn_only s (vortexSpawn x y count colors i s)"
  unfolding vortexSpawn_def Let_def by (rule spawn_only_step)

lemma supernovaBurst_spawns: "spawns 1 s (supernovaBurst x y colors intensity i s)"
  unfolding supernovaBurst_def Let_def
  by (rule spawn_step) (use rand_range [of s 3] in simp)

lemma supernovaBurst_only: "spawn_only s (supernovaBurst x y colors intensity i s)"
  unfolding supernovaBurst_def Let_def by (rule spawn_only_step)

lemma supernovaRing_spawns: "spawns 1 s (supernovaRing x y colors intensity i s)"
  unfolding supernovaRing_def Let_def
  by (rule spawn_step) (use rand_range [of s 3] in simp)

lemma supernovaRing_only: "spawn_only s (supernovaRing x y colors intensity i s)"
  unfolding supernovaRing_def Let_def by (rule spawn_only_step)

lemma auroraSpawn_spawns: "spawns 1 s (auroraSpawn width baseY colors ribbon i s)"
  unfolding auroraSpawn_def Let_def
  by (rule spawn_step) (use rand_range [of s 4] in simp)

lemma auroraSpawn_only: "spawn_only s (auroraSpawn width baseY colors ribbon i s)"
  unfolding auroraSpawn_def Let_def by (rule spawn_only_step)

lemma resonanceSpawn_spawns: "spawns 1 s (resonanceSpawn x y colors ring ringRadius particlesInRing i s)"
  unfolding resonanceSpawn_def Let_def
  by (rule spawn_step) (use rand_range [of s 1] in simp)

lemma resonanceSpawn_only: "spawn_only s (resonanceSpawn x y colors ring ringRadius particlesInRing i s)"
  unfolding resonanceSpawn_def Let_def by (rule spawn_only_step)

lemma orbitSpawn_spawns: "spawns 1 s (orbitSpawn center ci colors i s)"
  unfolding orbitSpawn_def Let_def
  by (rule spawn_step) (use rand_range [of s 3] in simp)

lemma orbitSpawn_only: "spawn_only s (orbitSpawn center ci colors i s)"
  unfolding orbitSpawn_def Let_def by (rule spawn_only_step)

lemma cascadeSpawn_spawns: "spawns 1 s (cascadeSpawn width colors s)"
  unfolding cascadeSpawn_def Let_def
  by (rule spawn_step) (use rand_range [of s 5] in simp)

lemma cascadeSpawn_only: "spawn_only s (cascadeSpawn width colors s)"
  unfolding cascadeSpawn_def Let_def by (rule spawn_only_step)

lemma emergenceSpawn_spawns: "spawns 1 s (emergenceSpawn x y i colors s)"
  unfolding emergenceSpawn_def Let_def
  by (rule spawn_step) (use rand_range [of s 3] in simp)

lemma emergenceSpawn_only: "spawn_only s (emergenceSpawn x y i colors s)"
  unfolding emergenceSpawn_def Let_def by (rule spawn_only_step)

lemma harmonySpawn_spawns: "spawns 1 s (harmonySpawn x y colors i s)"
  unfolding harmonySpawn_def Let_def
  by (rule spawn_step) (use rand_range [of s 5] in simp)

lemma harmonySpawn_only: "spawn_only s (harmonySpawn x y colors i s)"
  unfolding harmonySpawn_def Let_def by (rule spawn_only_step)

lemma helixSpawn_spawns: "spawns 1 s (helixSpawn x y height colors intensity strand particlesPerStrand i s)"
  unfolding helixSpawn_def Let_def
  by (rule spawn_step) (use rand_range [of s 1] in simp)

lemma helixSpawn_only: "spawn_only s (helixSpawn x y height colors intensity strand particlesPerStrand i s)"
  unfolding helixSpawn_def Let_def by (rule spawn_only_step)

lemma bloomSpawn_spawns: "spawns 1 s (bloomSpawn x y colors intensity petal layer i s)"
  unfolding bloomSpawn_def Let_def
  by (rule spawn_step) (use rand_range [of s 3] in simp)

lemma bloomSpawn_only: "spawn_only s (bloomSpawn x y colors intensity petal layer i s)"
  unfolding bloomSpawn_def Let_def by (rule spawn_only_step)

lemma nebulaSpawn_spawns: "spawns 1 s (nebulaSpawn x y colors i s)"
  unfolding nebulaSpawn_def Let_def
  by (rule spawn_step) (use rand_range [of s 6] in simp)

lemma nebulaSpawn_only: "spawn_only s (nebulaSpawn x y colors i s)"
  unfolding nebulaSpawn_def Let_def by (rule spawn_only_step)

lemma constellationSpawn_spawns:
  "spawns (if constellationInside width height i then 1 else 0) s
     (constellationSpawn width height colors i s)"
proof (cases "constellationInside width height i")
  case True
  have "spawns 1 s (constellationSpawn width height colors i s)"
    unfolding constellationSpawn_def Let_def using True
    by (simp only: if_True) (rule spawn_step, use rand_range [of s 3] in simp)
  then show ?thesis using True by simp
next
  case False
  then show ?thesis by (simp add: constellationSpawn_def Let_def spawns_refl)
qed

lemma constellationSpawn_only: "spawn_only s (constellationSpawn width height colors i s)"
  unfolding constellationSpawn_def Let_def
  by (simp add: spawn_only_step spawn_only_refl)

section \<open>Recipes: what they spawn\<close>

lemma spawns_after_frame:
  assumes "spawns k s2 s3"
    and "particles s2 = particles s" "particleIdCounter s2 = particleIdCounter s" "rnd s2 = rnd s"
  shows "spawns k s s3"
  using spawns_trans [OF spawns_frame [OF assms(2,3,4)] assms(1)] by simp

lemma spawns_then_frame:
  assumes "spawns k s s2"
    and "particles s3 = particles s2" "particleIdCounter s3 = particleIdCounter s2" "rnd s3 = rnd s2"
  shows "spawns k s s3"
  using spawns_trans [OF assms(1) spawns_frame [OF assms(2,3,4)]] by simp

lemma spawns_loop1:
  assumes "\<And>i s. spawns 1 s (body i s)"
  shows "spawns (nat \<lceil>c\<rceil>) s (for_lt 0 c body s)"
  using spawns_for_lt_const [of 1 body c s] assms by simp

lemma spawns_loop_int:
  assumes "\<And>i s. spawns 1 s (body i s)"
  shows "spawns (nat k) s (for_lt 0 (of_int k) body s)"
  using spawns_loop1 [of body "of_int k" s] assms by simp

lemma setup_loop_fields:
  assumes "\<And>i s. particles (body i s) = particles s"
    and "\<And>i s. particleIdCounter (body i s) = particleIdCounter s"
    and "\<And>i s. rnd (body i s) = rnd s"
  shows "particles (for_lt i c body s) = particles s"
    and "particleIdCounter (for_lt i c body s) = particleIdCounter s"
    and "rnd (for_lt i c body s) = rnd s"
  by (rule for_lt_field, simp add: assms)+

lemma sum_list_indicator:
  "sum_list (map (\<lambda>i. if P i then 1 else 0) xs) = length (filter P xs)"
  by (induction xs) simp_all

lemma createVortex_spawns:
  "spawns (nat \<lceil>count\<rceil>) s (createVortex x y count colors intensity s)"
  unfolding createVortex_def Let_def
  by (rule spawns_after_frame [OF spawns_loop1 [OF vortexSpawn_spawns]]) simp_all

lemma supernovaForce_fields [simp]:
  "particles (supernovaForce x y intensity k s) = particles s"
  "particleIdCounter (supernovaForce x y intensity k s) = particleIdCounter s"
  "rnd (supernovaForce x y intensity k s) = rnd s"
  "attractors (supernovaForce x y intensity k s) = attractors s"
  "timers (supernovaForce x y intensity k s) = timers s"
  by (simp_all add: supernovaForce_def Let_def)

lemma createSupernova_spawns:
  "spawns (nat \<lceil>count * 0.6\<rceil>) s (createSupernova x y count colors intensity s)"
  unfolding createSupernova_def Let_def
  by (rule spawns_then_frame [OF spawns_after_frame [OF spawns_loop1 [OF supernovaBurst_spawns]]])
     (simp_all add: setup_loop_fields)

lemma auroraSource_fields [simp]:
  "particles (auroraSource height intensity i s) = particles s"
  "particleIdCounter (auroraSource height intensity i s) = particleIdCounter s"
  "rnd (auroraSource height intensity i s) = rnd s"
  "attractors (auroraSource height intensity i s) = attractors s"
  "timers (auroraSource height intensity i s) = timers s"
  by (simp_all add: auroraSource_def Let_def)

lemma auroraRibbon_spawns:
  "spawns (nat \<lfloor>count / 4\<rfloor>) s (auroraRibbon width height count colors ribbon s)"
  unfolding auroraRibbon_def Let_def
  by (rule spawns_loop_int [OF auroraSpawn_spawns])

lemma createAurora_spawns:
  "spawns (4 * nat \<lfloor>count / 4\<rfloor>) s (createAurora count colors intensity s)"
proof -
  have "spawns (nat \<lceil>4 :: real\<rceil> * nat \<lfloor>count / 4\<rfloor>) s (createAurora count colors intensity s)"
    unfolding createAurora_def Let_def
    by (rule spawns_after_frame [OF spawns_for_lt_const [OF auroraRibbon_spawns]])
       (simp_all add: setup_loop_fields)
  then show ?thesis by simp
qed

lemma resonanceRing_spawns:
  "spawns (nat \<lfloor>count / 4\<rfloor>) s (resonanceRing x y count colors ring s)"
  unfolding resonanceRing_def Let_def
  by (rule spawns_loop_int [OF resonanceSpawn_spawns])

lemma createResonance_spawns:
  "spawns (4 * nat \<lfloor>count / 4\<rfloor>) s (createResonance x y count colors intensity heartRate s)"
proof -
  have "spawns (nat \<lceil>4 :: real\<rceil> * nat \<lfloor>count / 4\<rfloor>) s
          (createResonance x y count colors intensity heartRate s)"
    unfolding createResonance_def Let_def
    by (rule spawns_then_frame
          [OF spawns_after_frame [OF spawns_for_lt_const [OF resonanceRing_spawns]]])
       (simp_all add: setup_loop_fields)
  then show ?thesis by simp
qed

lemma orbitCenter_spawns:
  "spawns (nat \<lfloor>count / 3\<rfloor>) s (orbitCenter count colors center_ci s)"
  unfolding orbitCenter_def Let_def
  by (rule spawns_loop_int [OF orbitSpawn_spawns])

lemma createOrbit_spawns:
  "spawns (3 * nat \<lfloor>count / 3\<rfloor>) s (createOrbit x y count colors intensity s)"
proof -
  let ?cs = "zip (orbitCenters x y intensity) [0 ..< length (orbitCenters x y intensity)]"
  have "spawns (sum_list (map (\<lambda>_. nat \<lfloor>count / 3\<rfloor>) ?cs)) s
          (createOrbit x y count colors intensity s)"
    unfolding createOrbit_def Let_def
    by (rule spawns_after_frame [OF spawns_fold [OF orbitCenter_spawns]])
       (simp_all add: fold_field)
  also have "sum_list (map (\<lambda>_. nat \<lfloor>count / 3\<rfloor>) ?cs) = 3 * nat \<lfloor>count / 3\<rfloor>"
    by (simp add: map_replicate_const sum_list_replicate orbitCenters_def)
  finally show ?thesis .
qed

lemma createCascade_spawns:
  "spawns 0 s (createCascade count colors intensity s)"
  unfolding createCascade_def Let_def
  by (rule spawns_frame) (simp_all add: setup_loop_fields)

lemma emergenceSource_fields [simp]:
  "particles (emergenceSource x y i s) = particles s"
  "particleIdCounter (emergenceSource x y i s) = particleIdCounter s"
  "rnd (emergenceSource x y i s) = rnd s"
  "attractors (emergenceSource x y i s) = attractors s"
  "timers (emergenceSource x y i s) = timers s"
  by (simp_all add: emergenceSource_def Let_def)

lemma createEmergence_spawns:
  "spawns 0 s (createEmergence x y count colors intensity s)"
  unfolding createEmergence_def Let_def
  by (rule spawns_frame) (simp_all add: setup_loop_fields)

lemma createHarmony_spawns:
  "spawns (nat \<lceil>count\<rceil>) s (createHarmony x y count colors intensity s)"
  unfolding createHarmony_def Let_def
  by (rule spawns_after_frame [OF spawns_loop1 [OF harmonySpawn_spawns]])
     (simp_all add: fold_field)

lemma createHelix_spawns:
  "spawns (2 * nat \<lfloor>count / 2\<rfloor>) s (createHelix x y count colors intensity s)"
proof -
  have "spawns (nat \<lceil>2 :: real\<rceil> * nat \<lfloor>count / 2\<rfloor>) s (createHelix x y count colors intensity s)"
    unfolding createHelix_def Let_def
    by (rule spawns_for_lt_const [OF spawns_loop_int [OF helixSpawn_spawns]])
  then show ?thesis by simp
qed

lemma createBloom_spawns:
  "spawns (8 * (4 * nat \<lfloor>of_int \<lfloor>count / 8\<rfloor> / (4 :: real)\<rfloor>)) s
     (createBloom x y count colors intensity s)"
proof -
  let ?k = "nat \<lfloor>of_int \<lfloor>count / 8\<rfloor> / (4 :: real)\<rfloor>"
  have "spawns (nat \<lceil>8 :: real\<rceil> * (nat \<lceil>4 :: real\<rceil> * ?k)) s
          (createBloom x y count colors intensity s)"
    unfolding createBloom_def Let_def
    by (rule spawns_after_frame
          [OF spawns_for_lt_const [OF spawns_for_lt_const [OF spawns_loop_int [OF bloomSpawn_spawns]]]])
       simp_all
  then show ?thesis by simp
qed

lemma createConstellation_spawns:
  "spawns (length (filter (constellationInside (innerWidth s) (innerHeight s)) [0 ..< nat \<lceil>count\<rceil>])) s
     (createConstellation count colors intensity s)"
proof -
  have "spawns (sum_list (map (\<lambda>i. if constellationInside (innerWidth s) (innerHeight s) i
                                      then 1 else 0) [0 ..< nat \<lceil>count\<rceil>])) s
          (createConstellation count colors intensity s)"
    unfolding createConstellation_def
    by (rule spawns_for_lt [OF constellationSpawn_spawns])
  then show ?thesis by (simp only: sum_list_indicator)
qed

lemma nebulaDensity_fields [simp]:
  "particles (nebulaDensity x y intensity i s) = particles s"
  "particleIdCounter (nebulaDensity x y intensity i s) = particleIdCounter s"
  "rnd (nebulaDensity x y intensity i s) = rnd s"
  "attractors (nebulaDensity x y intensity i s) = attractors s"
  "timers (nebulaDensity x y intensity i s) = timers s"
  by (simp_all add: nebulaDensity_def Let_def)

lemma createNebula_spawns:
  "spawns (nat \<lceil>count\<rceil>) s (createNebula x y count colors intensity s)"
  unfolding createNebula_def Let_def
  by (rule spawns_after_frame [OF spawns_loop1 [OF nebulaSpawn_spawns]])
     (simp_all add: setup_loop_fields)

lemma resonancePulse_fields [simp]:
  "particles (resonancePulse x y s) = particles s"
  "particleIdCounter (resonancePulse x y s) = particleIdCounter s"
  "rnd (resonancePulse x y s) = rnd s"
  "attractors (resonancePulse x y s) = attractors s"
  "timers (resonancePulse x y s) = timers s"
  by (simp_all add: resonancePulse_def for_lt_field)

lemma runCallback_spawns: "spawns (callbackCount cb) s (runCallback cb s)"
proof (cases cb)
  case (SupernovaRing x y count colors intensity)
  then show ?thesis by (simp add: spawns_loop1 [OF supernovaRing_spawns])
next
  case (ResonancePulse x y)
  then show ?thesis by (simp add: spawns_frame)
next
  case (CascadeSpawn width colors)
  then show ?thesis using cascadeSpawn_spawns [of s width colors] by simp
next
  case (EmergenceSpawn x y i colors)
  then show ?thesis using emergenceSpawn_spawns [of s x y i colors] by simp
qed

lemma dispatch_known:
  "dispatch ''vortex'' x y count colors intensity heartRate s =
     createVortex x y count colors intensity s"
  "dispatch ''supernova'' x y count colors intensity heartRate s =
     createSupernova x y count colors intensity s"
  "dispatch ''aurora'' x y count colors intensity heartRate s =
     createAurora count colors intensity s"
  "dispatch ''resonance'' x y count colors intensity heartRate s =
     createResonance x y count colors intensity heartRate s"
  "dispatch ''orbit'' x y count colors intensity heartRate s =
     createOrbit x y count colors intensity s"
  "dispatch ''cascade'' x y count colors intensity heartRate s =
     createCascade count colors intensity s"
  "dispatch ''emergence'' x y count colors intensity heartRate s =
     createEmergence x y count colors intensity s"
  "dispatch ''harmony'' x y count colors intensity heartRate s =
     createHarmony x y count colors intensity s"
  "dispatch ''helix'' x y count colors intensity heartRate s =
     createHelix x y count colors intensity s"
  "dispatch ''bloom'' x y count colors intensity heartRate s =
     createBloom x y count colors intensity s"
  "dispatch ''constellation'' x y count colors intensity heartRate s =
     createConstellation count colors intensity s"
  "dispatch ''nebula'' x y count colors intensity heartRate s =
     createNebula x y count colors intensity s"
  by (simp_all add: dispatch_def)

lemma dispatch_unknown:
  "type \<notin> set knownTypes \<Longrightarrow> dispatch type x y count colors intensity heartRate s = s"
  by (simp add: dispatch_def knownTypes_def)

lemma spawnCount_known:
  "spawnCount ''vortex'' count width height = nat \<lceil>count\<rceil>"
  "spawnCount ''supernova'' count width height = nat \<lceil>count * 0.6\<rceil>"
  "spawnCount ''aurora'' count width height = 4 * nat \<lfloor>count / 4\<rfloor>"
  "spawnCount ''resonance'' count width height = 4 * nat \<lfloor>count / 4\<rfloor>"
  "spawnCount ''orbit'' count width height = 3 * nat \<lfloor>count / 3\<rfloor>"
  "spawnCount ''cascade'' count width height = 0"
  "spawnCount ''emergence'' count width height = 0"
  "spawnCount ''harmony'' count width height = nat \<lceil>count\<rceil>"
  "spawnCount ''helix'' count width height = 2 * nat \<lfloor>count / 2\<rfloor>"
  "spawnCount ''bloom'' count width height = 8 * (4 * nat \<lfloor>of_int \<lfloor>count / 8\<rfloor> / (4 :: real)\<rfloor>)"
  "spawnCount ''constellation'' count width height =
     length (filter (constellationInside width height) [0 ..< nat \<lceil>count\<rceil>])"
  "spawnCount ''nebula'' count width height = nat \<lceil>count\<rceil>"
  by (simp_all add: spawnCount_def)

lemma spawnCount_unknown: "type \<notin> set knownTypes \<Longrightarrow> spawnCount type count width height = 0"
  by (simp add: spawnCount_def knownTypes_def)

lemma known_cases:
  assumes "type \<in> set knownTypes"
    and "P ''vortex''" "P ''supernova''" "P ''aurora''" "P ''resonance''" "P ''orbit''"
    "P ''cascade''" "P ''emergence''" "P ''harmony''" "P ''helix''" "P ''bloom''"
    "P ''constellation''" "P ''nebula''"
  shows "P type"
  using assms unfolding knownTypes_def by (simp only: set_simps insert_iff empty_iff) blast

lemma dispatch_spawns:
  "spawns (spawnCount type count (innerWidth s) (innerHeight s)) s
     (dispatch type x y count colors intensity heartRate s)"
proof (cases "type \<in> set knownTypes")
  case False
  then show ?thesis by (simp add: dispatch_unknown spawnCount_unknown spawns_refl)
next
  case True
  then show ?thesis
    by (rule known_cases)
       (simp_all only: dispatch_known spawnCount_known createVortex_spawns
          createSupernova_spawns createAurora_spawns createResonance_spawns createOrbit_spawns
          createCascade_spawns createEmergence_spawns createHarmony_spawns createHelix_spawns
          createBloom_spawns createConstellation_spawns createNebula_spawns)
qed

section \<open>Recipes: what they leave alone\<close>

lemma recipe_step_refl: "recipe_step s s"
  by (simp add: recipe_step_def)

lemma recipe_step_trans:
  assumes a: "recipe_step s s'" and b: "recipe_step s' s''"
  shows "recipe_step s s''"
proof -
  have "s'' = s'\<lparr>particles := particles s'', particleIdCounter := particleIdCounter s'',
            rpos := rpos s'', attractors := attractors s'', fluid := fluid s'',
            flowField := flowField s'', lissajous := lissajous s'', timers := timers s''\<rparr>"
    using b by (simp add: recipe_step_def)
  also have "s' = s\<lparr>particles := particles s', particleIdCounter := particleIdCounter s',
            rpos := rpos s', attractors := attractors s', fluid := fluid s',
            flowField := flowField s', lissajous := lissajous s', timers := timers s'\<rparr>"
    using a by (simp add: recipe_step_def)
  finally show ?thesis by (simp add: recipe_step_def)
qed

lemma recipe_step_fields:
  assumes "recipe_step s s'"
  shows "animationId s' = animationId s" "time s' = time s" "enabled s' = enabled s"
    "prefersReducedMotion s' = prefersReducedMotion s"
    "innerWidth s' = innerWidth s" "innerHeight s' = innerHeight s"
    "frames s' = frames s" "nextHandle s' = nextHandle s" "rnd s' = rnd s"
    "getVelocity s' = getVelocity s" "sample s' = sample s"
  by (subst assms [unfolded recipe_step_def], simp)+

lemma recipe_step_spawn_only: "spawn_only s s' \<Longrightarrow> recipe_step s s'"
proof -
  assume a: "spawn_only s s'"
  have "s' = s\<lparr>particles := particles s', particleIdCounter := particleIdCounter s',
            rpos := rpos s'\<rparr>"
    using a by (simp add: spawn_only_def)
  then have "s\<lparr>particles := particles s', particleIdCounter := particleIdCounter s',
            rpos := rpos s', attractors := attractors s', fluid := fluid s',
            flowField := flowField s', lissajous := lissajous s', timers := timers s'\<rparr> = s'"
    by (simp add: spawn_only_fields [OF a])
  then show ?thesis by (simp add: recipe_step_def)
qed

lemma recipe_step_prims:
  "recipe_step s (fluidCall c s)" "recipe_step s (flowCall fc s)"
  "recipe_step s (pushAttractor a s)" "recipe_step s (setTimeout cb d s)"
  "recipe_step s (advance n s)" "recipe_step s (s\<lparr>lissajous := l\<rparr>)"
  by (simp_all add: recipe_step_def fluidCall_def flowCall_def pushAttractor_def setTimeout_def
      advance_def split: option.splits)

lemma recipe_step_for_lt:
  assumes "\<And>i s. recipe_step s (body i s)"
  shows "recipe_step s (for_lt i c body s)"
  by (rule for_lt_invariant [where P = "recipe_step s"])
     (auto intro: recipe_step_trans assms recipe_step_refl)

lemma recipe_step_fold:
  assumes "\<And>x s. recipe_step s (f x s)"
  shows "recipe_step s (fold f xs s)"
  by (rule fold_invariant [where P = "recipe_step s"])
     (auto intro: recipe_step_trans assms recipe_step_refl)

lemma recipe_step_after:
  "recipe_step s t \<Longrightarrow> recipe_step s (fluidCall c t)"
  "recipe_step s t \<Longrightarrow> recipe_step s (flowCall fc t)"
  "recipe_step s t \<Longrightarrow> recipe_step s (pushAttractor a t)"
  "recipe_step s t \<Longrightarrow> recipe_step s (setTimeout cb d t)"
  "recipe_step s t \<Longrightarrow> recipe_step s (advance n t)"
  "recipe_step s t \<Longrightarrow> recipe_step s (t\<lparr>lissajous := l\<rparr>)"
  "recipe_step s t \<Longrightarrow> recipe_step s t' \<Longrightarrow> recipe_step s (if b then t else t')"
  by (auto intro: recipe_step_trans recipe_step_prims)

lemma recipe_step_after_for_lt:
  assumes "recipe_step s t" and "\<And>i u. recipe_step u (body i u)"
  shows "recipe_step s (for_lt i bd body t)"
  by (rule recipe_step_trans [OF assms(1) recipe_step_for_lt]) (rule assms(2))

lemma recipe_step_after_fold:
  assumes "recipe_step s t" and "\<And>x u. recipe_step u (f x u)"
  shows "recipe_step s (fold f xs t)"
  by (rule recipe_step_trans [OF assms(1) recipe_step_fold]) (rule assms(2))

lemmas recipe_step_bodies =
  vortexSpawn_only [THEN recipe_step_spawn_only]
  supernovaBurst_only [THEN recipe_step_spawn_only]
  supernovaRing_only [THEN recipe_step_spawn_only]
  auroraSpawn_only [THEN recipe_step_spawn_only]
  resonanceSpawn_only [THEN recipe_step_spawn_only]
  orbitSpawn_only [THEN recipe_step_spawn_only]
  cascadeSpawn_only [THEN recipe_step_spawn_only]
  emergenceSpawn_only [THEN recipe_step_spawn_only]
  harmonySpawn_only [THEN recipe_step_spawn_only]
  helixSpawn_only [THEN recipe_step_spawn_only]
  bloomSpawn_only [THEN recipe_step_spawn_only]
  nebulaSpawn_only [THEN recipe_step_spawn_only]
  constellationSpawn_only [THEN recipe_step_spawn_only]

lemma recipe_step_recipes:
  "recipe_step s (createVortex x y count colors intensity s)"
  "recipe_step s (createSupernova x y count colors intensity s)"
  "recipe_step s (createAurora count colors intensity s)"
  "recipe_step s (createResonance x y count colors intensity heartRate s)"
  "recipe_step s (createOrbit x y count colors intensity s)"
  "recipe_step s (createCascade count colors intensity s)"
  "recipe_step s (createEmergence x y count colors intensity s)"
  "recipe_step s (createHarmony x y count colors intensity s)"
  "recipe_step s (createHelix x y count colors intensity s)"
  "recipe_step s (createBloom x y count colors intensity s)"
  "recipe_step s (createConstellation count colors intensity s)"
  "recipe_step s (createNebula x y count colors intensity s)"
  unfolding createVortex_def createSupernova_def createAurora_def createResonance_def
    createOrbit_def createCascade_def createEmergence_def createHarmony_def createHelix_def
    createBloom_def createConstellation_def createNebula_def Let_def
    supernovaForce_def auroraSource_def auroraRibbon_def resonanceRing_def orbitCenter_def
    emergenceSource_def nebulaDensity_def
  by (intro recipe_step_after recipe_step_after_for_lt recipe_step_after_fold
        recipe_step_refl recipe_step_bodies)+

lemma recipe_step_dispatch: "recipe_step s (dispatch type x y count colors intensity heartRate s)"
proof (cases "type \<in> set knownTypes")
  case False
  then show ?thesis by (simp add: dispatch_unknown recipe_step_refl)
next
  case True
  then show ?thesis
    by (rule known_cases) (simp_all only: dispatch_known recipe_step_recipes)
qed

lemma recipe_step_runCallback: "recipe_step s (runCallback cb s)"
  by (cases cb)
     (auto simp: resonancePulse_def
       intro!: recipe_step_for_lt recipe_step_bodies recipe_step_after
         recipe_step_after_for_lt recipe_step_refl)


section \<open>The animation tick\<close>

lemma animate_decompose:
  "animate s =
     (let s5 = tickParticles (tickPrepare s)
      in if length (particles s5) > 0 \<or> length (attractors s5) > 0 then requestAnimationFrame s5
         else s5\<lparr>animationId := None, lissajous := None\<rparr>)"
  unfolding animate_def tickParticles_def tickPrepare_def Let_def by (rule refl)

lemma lissajousStep_fields [simp]:
  "particles (lissajousStep ls i s) = particles s"
  "particleIdCounter (lissajousStep ls i s) = particleIdCounter s"
  "rnd (lissajousStep ls i s) = rnd s"
  "timers (lissajousStep ls i s) = timers s"
  "frames (lissajousStep ls i s) = frames s"
  "animationId (lissajousStep ls i s) = animationId s"
  "nextHandle (lissajousStep ls i s) = nextHandle s"
  "enabled (lissajousStep ls i s) = enabled s"
  "prefersReducedMotion (lissajousStep ls i s) = prefersReducedMotion s"
  "lissajous (lissajousStep ls i s) = lissajous s"
  "length (attractors (lissajousStep ls i s)) = length (attractors s)"
  by (simp_all add: lissajousStep_def Let_def)

lemma lissajous_loop_length [simp]:
  "length (attractors (for_lt i c (lissajousStep ls) s)) = length (attractors s)"
  by (rule for_lt_field [where f = "\<lambda>s. length (attractors s)"]) simp

lemma tickPrepare_fields [simp]:
  "particles (tickPrepare s) = particles s"
  "particleIdCounter (tickPrepare s) = particleIdCounter s"
  "rnd (tickPrepare s) = rnd s"
  "timers (tickPrepare s) = timers s"
  "frames (tickPrepare s) = frames s"
  "animationId (tickPrepare s) = animationId s"
  "nextHandle (tickPrepare s) = nextHandle s"
  "enabled (tickPrepare s) = enabled s"
  "prefersReducedMotion (tickPrepare s) = prefersReducedMotion s"
  "lissajous (tickPrepare s) = lissajous s"
  "length (attractors (tickPrepare s)) = length (attractors s)"
  by (simp_all add: tickPrepare_def Let_def for_lt_field split: option.splits)


lemma tickParticles_fields [simp]:
  "attractors (tickParticles s) = attractors s"
  "particleIdCounter (tickParticles s) = particleIdCounter s"
  "rnd (tickParticles s) = rnd s"
  "timers (tickParticles s) = timers s"
  "frames (tickParticles s) = frames s"
  "animationId (tickParticles s) = animationId s"
  "nextHandle (tickParticles s) = nextHandle s"
  "enabled (tickParticles s) = enabled s"
  "prefersReducedMotion (tickParticles s) = prefersReducedMotion s"
  "lissajous (tickParticles s) = lissajous s"
  "fluid (tickParticles s) = fluid s"
  "flowField (tickParticles s) = flowField s"
  by (simp_all add: tickParticles_def Let_def)

lemma fold_map_delete: "fold map_delete ks m = filter (\<lambda>e. fst e \<notin> set ks) m"
proof (induction ks arbitrary: m)
  case Nil
  show ?case by simp
next
  case (Cons k ks)
  have "fold map_delete (k # ks) m = filter (\<lambda>e. fst e \<notin> set ks) (filter (\<lambda>e. fst e \<noteq> k) m)"
    by (simp add: Cons.IH map_delete_def)
  also have "\<dots> = filter (\<lambda>e. fst e \<noteq> k \<and> fst e \<notin> set ks) m"
    by (simp only: filter_filter)
  also have "\<dots> = filter (\<lambda>e. fst e \<notin> set (k # ks)) m"
    by (rule filter_cong [OF refl]) auto
  finally show ?case .
qed

lemma distinct_fst_eq:
  "fst e' = fst e \<Longrightarrow> distinct (map fst xs) \<Longrightarrow> e \<in> set xs \<Longrightarrow> e' \<in> set xs \<Longrightarrow> e' = e"
  by (cases e, cases e') (auto dest: eq_key_imp_eq_value)

lemma tickParticles_particles:
  assumes "\<forall>e \<in> set (particles s). p_id (snd e) = fst e" and "distinct (map fst (particles s))"
  shows "particles (tickParticles s) =
           filter (\<lambda>e. \<not> (p_life (snd e) \<le> 0 \<or> p_opacity (snd e) \<le> 0))
             (map (\<lambda>e. (fst e, updateParticle s (snd e) 1)) (particles s))"
proof -
  define upd where "upd = map (\<lambda>e. (fst e, updateParticle s (snd e) 1)) (particles s)"
  define deadp where
    "deadp = (\<lambda>e :: nat \<times> PhysicsParticle. p_life (snd e) \<le> 0 \<or> p_opacity (snd e) \<le> 0)"
  define dead where "dead = map (\<lambda>e. p_id (snd e)) (filter deadp upd)"
  have ids: "\<forall>e \<in> set upd. p_id (snd e) = fst e"
    using assms(1) by (auto simp: upd_def updateParticle_id)
  have dist: "distinct (map fst upd)"
    using assms(2) by (simp add: upd_def comp_def)
  have "\<And>e. e \<in> set upd \<Longrightarrow> (fst e \<notin> set dead) = (\<not> deadp e)"
  proof -
    fix e assume e: "e \<in> set upd"
    show "(fst e \<notin> set dead) = (\<not> deadp e)"
    proof
      assume "fst e \<notin> set dead"
      then show "\<not> deadp e" using e ids by (force simp: dead_def)
    next
      assume nd: "\<not> deadp e"
      show "fst e \<notin> set dead"
      proof
        assume "fst e \<in> set dead"
        then obtain e' where e': "e' \<in> set upd" "deadp e'" "p_id (snd e') = fst e"
          by (auto simp: dead_def)
        then have "fst e' = fst e" using ids by auto
        then have "e' = e" using dist e e'(1) by (rule distinct_fst_eq)
        then show False using nd e'(2) by simp
      qed
    qed
  qed
  then have "filter (\<lambda>e. fst e \<notin> set dead) upd = filter (\<lambda>e. \<not> deadp e) upd"
    by (intro filter_cong) auto
  then show ?thesis
    by (simp add: tickParticles_def Let_def fold_map_delete upd_def dead_def deadp_def)
qed

lemma engine_inv_cong:
  "particles s' = particles s \<Longrightarrow> particleIdCounter s' = particleIdCounter s \<Longrightarrow>
   engine_inv s' = engine_inv s"
  by (simp add: engine_inv_def)

lemma rnd_ok_cong: "rnd s' = rnd s \<Longrightarrow> rnd_ok s' = rnd_ok s"
  by (simp add: rnd_ok_def)

lemma engine_inv_updates [simp]:
  "engine_inv (tickPrepare s) = engine_inv s"
  "engine_inv (requestAnimationFrame s) = engine_inv s"
  "engine_inv (s\<lparr>animationId := a\<rparr>) = engine_inv s"
  "engine_inv (s\<lparr>lissajous := l\<rparr>) = engine_inv s"
  "engine_inv (s\<lparr>attractors := as\<rparr>) = engine_inv s"
  "engine_inv (s\<lparr>timers := ts\<rparr>) = engine_inv s"
  "engine_inv (s\<lparr>frames := fs\<rparr>) = engine_inv s"
  "engine_inv (s\<lparr>enabled := b\<rparr>) = engine_inv s"
  "engine_inv (s\<lparr>prefersReducedMotion := b\<rparr>) = engine_inv s"
  by (simp_all add: engine_inv_def)

lemma rnd_ok_updates [simp]:
  "rnd_ok (s\<lparr>attractors := as\<rparr>) = rnd_ok s"
  "rnd_ok (s\<lparr>timers := ts\<rparr>) = rnd_ok s"
  "rnd_ok (s\<lparr>frames := fs\<rparr>) = rnd_ok s"
  "rnd_ok (s\<lparr>enabled := b\<rparr>) = rnd_ok s"
  "rnd_ok (s\<lparr>prefersReducedMotion := b\<rparr>) = rnd_ok s"
  by (simp_all add: rnd_ok_def)

lemma tickParticles_survivor:
  assumes inv: "engine_inv s" and e: "e \<in> set (particles (tickParticles s))"
  shows "\<exists>p. (fst e, p) \<in> set (particles s) \<and> snd e = updateParticle s p 1 \<and>
             0 < p_life (snd e) \<and> 0 < p_opacity (snd e)"
proof -
  have "particles (tickParticles s) =
           filter (\<lambda>e. \<not> (p_life (snd e) \<le> 0 \<or> p_opacity (snd e) \<le> 0))
             (map (\<lambda>e. (fst e, updateParticle s (snd e) 1)) (particles s))"
    using inv by (intro tickParticles_particles) (auto simp: engine_inv_def)
  with e show ?thesis by auto
qed

lemma engine_inv_tickParticles:
  assumes inv: "engine_inv s"
  shows "engine_inv (tickParticles s)"
proof -
  have eq: "particles (tickParticles s) =
           filter (\<lambda>e. \<not> (p_life (snd e) \<le> 0 \<or> p_opacity (snd e) \<le> 0))
             (map (\<lambda>e. (fst e, updateParticle s (snd e) 1)) (particles s))"
    using inv by (intro tickParticles_particles) (auto simp: engine_inv_def)
  have "distinct (map fst (map (\<lambda>e. (fst e, updateParticle s (snd e) 1)) (particles s)))"
    using inv by (simp add: engine_inv_def comp_def)
  then have d: "distinct (map fst (particles (tickParticles s)))"
    unfolding eq by (rule distinct_map_filter)
  have "\<And>e. e \<in> set (particles (tickParticles s)) \<Longrightarrow>
          fst e < particleIdCounter s \<and> p_id (snd e) = fst e \<and>
          p_life (snd e) \<le> p_maxLife (snd e) \<and> 0 \<le> p_opacity (snd e) \<and> p_opacity (snd e) \<le> 1"
  proof -
    fix e assume "e \<in> set (particles (tickParticles s))"
    from tickParticles_survivor [OF inv this] obtain p where
      p: "(fst e, p) \<in> set (particles s)" "snd e = updateParticle s p 1"
         "0 < p_life (snd e)" "0 < p_opacity (snd e)" by blast
    have "fst e < particleIdCounter s \<and> p_id p = fst e \<and> p_life p \<le> p_maxLife p"
      using inv p(1) by (auto simp: engine_inv_def)
    then show "fst e < particleIdCounter s \<and> p_id (snd e) = fst e \<and>
          p_life (snd e) \<le> p_maxLife (snd e) \<and> 0 \<le> p_opacity (snd e) \<and> p_opacity (snd e) \<le> 1"
      using p(4) unfolding p(2)
      by (simp add: updateParticle_id updateParticle_life updateParticle_maxLife
          updateParticle_opacity)
  qed
  with d show ?thesis by (simp add: engine_inv_def)
qed

lemma engine_inv_animate: "engine_inv s \<Longrightarrow> engine_inv (animate s)"
proof -
  assume inv: "engine_inv s"
  have "engine_inv (tickPrepare s)" using inv by simp
  then have "engine_inv (tickParticles (tickPrepare s))" by (rule engine_inv_tickParticles)
  then show ?thesis
    by (simp add: animate_decompose Let_def)
qed

lemma tickPrepare_attractors_Nil [simp]:
  "attractors (tickPrepare s) = [] \<longleftrightarrow> attractors s = []"
  using tickPrepare_fields(11) [of s] by (simp only: length_0_conv [symmetric])

lemma animate_fields [simp]:
  "particleIdCounter (animate s) = particleIdCounter s"
  "rnd (animate s) = rnd s"
  "timers (animate s) = timers s"
  "enabled (animate s) = enabled s"
  "prefersReducedMotion (animate s) = prefersReducedMotion s"
  "length (attractors (animate s)) = length (attractors s)"
  by (simp_all add: animate_decompose Let_def)

lemma rnd_ok_animate [simp]: "rnd_ok (animate s) = rnd_ok s"
  by (simp add: rnd_ok_def)

lemma animate_particles:
  "particles (animate s) = particles (tickParticles (tickPrepare s))"
  by (simp add: animate_decompose Let_def)


lemma animate_schedule:
  "animationId (animate s) =
     (if particles (animate s) \<noteq> [] \<or> attractors s \<noteq> [] then Some (nextHandle s) else None)"
  "frames (animate s) =
     (if particles (animate s) \<noteq> [] \<or> attractors s \<noteq> [] then frames s @ [nextHandle s]
      else frames s)"
  "lissajous (animate s) =
     (if particles (animate s) \<noteq> [] \<or> attractors s \<noteq> [] then lissajous s else None)"
  by (simp_all add: animate_decompose Let_def requestAnimationFrame_def)

lemma frames_inv_animate: "frames s = [] \<Longrightarrow> frames_inv (animate s)"
  by (simp add: frames_inv_def animate_schedule)


text \<open>A tick removes nobody when every particle has more than one tick of life left.\<close>

lemma animate_keeps_young:
  assumes inv: "engine_inv s" and young: "\<forall>e \<in> set (particles s). 1 < p_life (snd e)"
  shows "map fst (particles (animate s)) = map fst (particles s)"
proof -
  let ?t = "tickPrepare s"
  have inv': "engine_inv ?t" using inv by simp
  have eq: "particles (tickParticles ?t) =
           filter (\<lambda>e. \<not> (p_life (snd e) \<le> 0 \<or> p_opacity (snd e) \<le> 0))
             (map (\<lambda>e. (fst e, updateParticle ?t (snd e) 1)) (particles ?t))"
    using inv' by (intro tickParticles_particles) (auto simp: engine_inv_def)
  have alive: "\<And>e. e \<in> set (particles s) \<Longrightarrow>
      \<not> (p_life (updateParticle ?t (snd e) 1) \<le> 0 \<or> p_opacity (updateParticle ?t (snd e) 1) \<le> 0)"
  proof -
    fix e assume e: "e \<in> set (particles s)"
    have l: "1 < p_life (snd e)" using young e by blast
    have m: "p_life (snd e) \<le> p_maxLife (snd e)" using inv e by (auto simp: engine_inv_def)
    have "0 < (p_life (snd e) - 1) / p_maxLife (snd e)" using l m by simp
    then have "0 < (p_life (snd e) - 1) / p_maxLife (snd e) * 2" by (rule mult_pos_pos) simp
    then have b: "0 < min 1 ((p_life (snd e) - 1) / p_maxLife (snd e) * 2)" by simp
    have a: "0 < p_life (snd e) - 1" using l by simp
    show "\<not> (p_life (updateParticle ?t (snd e) 1) \<le> 0 \<or>
                  p_opacity (updateParticle ?t (snd e) 1) \<le> 0)"
      unfolding updateParticle_life updateParticle_opacity using a b by linarith
  qed
  have "filter (\<lambda>e. \<not> (p_life (snd e) \<le> 0 \<or> p_opacity (snd e) \<le> 0))
             (map (\<lambda>e. (fst e, updateParticle ?t (snd e) 1)) (particles s))
        = map (\<lambda>e. (fst e, updateParticle ?t (snd e) 1)) (particles s)"
    using alive by (simp add: filter_id_conv)
  then show ?thesis
    using eq by (simp add: animate_particles comp_def)
qed

section \<open>Invariants of the reachable states\<close>

lemma celebrate_unfold:
  "isEnabled s \<Longrightarrow>
   celebrate config s =
     (if animationId (recipeState config s) = None then animate (recipeState config s)
      else recipeState config s)"
  by (simp add: celebrate_def recipeState_def Let_def)

lemma frames_inv_updates [simp]:
  "frames_inv (s\<lparr>attractors := as\<rparr>) = frames_inv s"
  "frames_inv (s\<lparr>timers := ts\<rparr>) = frames_inv s"
  "frames_inv (s\<lparr>enabled := b\<rparr>) = frames_inv s"
  "frames_inv (s\<lparr>prefersReducedMotion := b\<rparr>) = frames_inv s"
  by (simp_all add: frames_inv_def)

lemma spawns_inv: "spawns k s s' \<Longrightarrow> engine_inv s \<Longrightarrow> rnd_ok s \<Longrightarrow> engine_inv s' \<and> rnd_ok s'"
  by (simp add: spawns_def)

lemma frames_inv_recipe_step: "recipe_step s s' \<Longrightarrow> frames_inv s' = frames_inv s"
  by (simp add: frames_inv_def recipe_step_fields)

lemma wf_dispatch:
  assumes "engine_inv s" "rnd_ok s" "frames_inv s"
  shows "engine_inv (dispatch type x y count colors intensity heartRate s) \<and>
         rnd_ok (dispatch type x y count colors intensity heartRate s) \<and>
         frames_inv (dispatch type x y count colors intensity heartRate s)"
  using spawns_inv [OF dispatch_spawns assms(1,2)] assms(3)
    frames_inv_recipe_step [OF recipe_step_dispatch]
  by simp

lemma wf_recipeState:
  assumes "engine_inv s" "rnd_ok s" "frames_inv s"
  shows "engine_inv (recipeState config s) \<and> rnd_ok (recipeState config s) \<and>
         frames_inv (recipeState config s)"
  unfolding recipeState_def using assms by (intro wf_dispatch) simp_all

lemma wf_animate:
  assumes "engine_inv s" "rnd_ok s" "frames s = []"
  shows "engine_inv (animate s) \<and> rnd_ok (animate s) \<and> frames_inv (animate s)"
  using assms by (simp add: engine_inv_animate frames_inv_animate)

lemma wf_celebrate:
  assumes "engine_inv s" "rnd_ok s" "frames_inv s"
  shows "engine_inv (celebrate config s) \<and> rnd_ok (celebrate config s) \<and>
         frames_inv (celebrate config s)"
proof (cases "isEnabled s")
  case False
  then show ?thesis using assms by (simp add: celebrate_def)
next
  case True
  let ?s2 = "recipeState config s"
  have 2: "engine_inv ?s2 \<and> rnd_ok ?s2 \<and> frames_inv ?s2"
    by (rule wf_recipeState [OF assms])
  show ?thesis
  proof (cases "animationId ?s2 = None")
    case None: True
    then have "frames ?s2 = []" using 2 by (simp add: frames_inv_def)
    then have "engine_inv (animate ?s2) \<and> rnd_ok (animate ?s2) \<and> frames_inv (animate ?s2)"
      using 2 by (intro wf_animate) simp_all
    then show ?thesis by (simp add: celebrate_unfold [OF True] None)
  next
    case False
    then show ?thesis using 2 by (auto simp: celebrate_unfold [OF True])
  qed
qed

lemma clear_fields [simp]:
  "particles (clear s) = []" "attractors (clear s) = []" "animationId (clear s) = None"
  "lissajous (clear s) = None" "timers (clear s) = timers s" "rnd (clear s) = rnd s"
  "particleIdCounter (clear s) = particleIdCounter s" "enabled (clear s) = enabled s"
  "prefersReducedMotion (clear s) = prefersReducedMotion s"
  "frames (clear s) = (case animationId s of Some h \<Rightarrow> removeAll h (frames s) | None \<Rightarrow> frames s)"
  by (simp_all add: clear_def Let_def cancelAnimationFrame_def split: option.splits)

lemma rnd_ok_clear [simp]: "rnd_ok (clear s) = rnd_ok s"
  by (simp add: rnd_ok_def)

lemma engine_inv_clear [simp]: "engine_inv (clear s)"
  by (simp add: engine_inv_def)

lemma frames_inv_clear: "frames_inv s \<Longrightarrow> frames_inv (clear s)"
  by (auto simp: frames_inv_def split: option.splits)

lemma wf_timeoutFires:
  assumes "engine_inv s" "rnd_ok s" "frames_inv s"
  shows "engine_inv (timeoutFires k s) \<and> rnd_ok (timeoutFires k s) \<and>
         frames_inv (timeoutFires k s)"
proof (cases "k < length (timers s)")
  case False
  then show ?thesis using assms by (simp add: timeoutFires_def)
next
  case True
  let ?s1 = "s\<lparr>timers := take k (timers s) @ drop (Suc k) (timers s)\<rparr>"
  let ?cb = "snd (timers s ! k)"
  have 1: "engine_inv ?s1" "rnd_ok ?s1" "frames_inv ?s1"
    using assms by simp_all
  have "engine_inv (runCallback ?cb ?s1) \<and> rnd_ok (runCallback ?cb ?s1)"
    by (rule spawns_inv [OF runCallback_spawns 1(1,2)])
  moreover have "frames_inv (runCallback ?cb ?s1)"
    using 1(3) frames_inv_recipe_step [OF recipe_step_runCallback, of ?cb ?s1] by simp
  ultimately show ?thesis using True by (simp add: timeoutFires_def)
qed

lemma wf_frameFires:
  assumes "engine_inv s" "rnd_ok s" "frames_inv s"
  shows "engine_inv (frameFires h s) \<and> rnd_ok (frameFires h s) \<and> frames_inv (frameFires h s)"
proof (cases "h \<in> set (frames s)")
  case False
  then show ?thesis using assms by (simp add: frameFires_def)
next
  case True
  let ?s1 = "s\<lparr>frames := removeAll h (frames s)\<rparr>"
  have "frames s = [h]" using True assms(3) by (auto simp: frames_inv_def split: option.splits)
  then have "frames ?s1 = []" by simp
  moreover have "engine_inv ?s1" "rnd_ok ?s1"
    using assms by simp_all
  ultimately have "engine_inv (animate ?s1) \<and> rnd_ok (animate ?s1) \<and> frames_inv (animate ?s1)"
    by (intro wf_animate)
  then show ?thesis using True by (simp add: frameFires_def)
qed

lemma reachable_wf: "reachable s \<Longrightarrow> engine_inv s \<and> rnd_ok s \<and> frames_inv s"
proof (induction rule: reachable.induct)
  case (r_new r width height reduced gv smp)
  then show ?case
    by (simp add: engine_inv_newEngine) (simp add: newEngine_def rnd_ok_def frames_inv_def)
next
  case (r_celebrate s config)
  then show ?case by (simp add: wf_celebrate)
next
  case (r_clear s)
  then show ?case by (simp add: frames_inv_clear)
next
  case (r_setEnabled s b)
  then show ?case by (simp add: setEnabled_def Let_def frames_inv_clear)
next
  case (r_timeout s k)
  then show ?case by (simp add: wf_timeoutFires)
next
  case (r_frame s h)
  then show ?case by (simp add: wf_frameFires)
next
  case (r_media s b)
  then show ?case by (simp add: mediaQueryChange_def)
qed

lemma reachable_example: "reachable exampleEngine"
  unfolding exampleEngine_def by (rule reachable.r_new) simp

section \<open>Recipes: setup and spawning apart\<close>

lemma spawn_only_setTimeout:
  "spawn_only s t \<Longrightarrow> spawn_only (setTimeout cb d s) (setTimeout cb d t)"
proof -
  assume a: "spawn_only s t"
  have "t = s\<lparr>particles := particles t, particleIdCounter := particleIdCounter t, rpos := rpos t\<rparr>"
    using a by (simp add: spawn_only_def)
  then have "setTimeout cb d t =
      setTimeout cb d (s\<lparr>particles := particles t, particleIdCounter := particleIdCounter t,
        rpos := rpos t\<rparr>)" by simp
  then show ?thesis by (simp add: spawn_only_def setTimeout_def)
qed

lemma spawn_only_timeout_fold:
  "spawn_only s t \<Longrightarrow>
   spawn_only (fold (\<lambda>i. setTimeout (cb i) (d i)) xs s) (fold (\<lambda>i. setTimeout (cb i) (d i)) xs t)"
  by (induction xs arbitrary: s t) (simp_all add: spawn_only_setTimeout)

lemma spawn_only_timeout_loop:
  "spawn_only s t \<Longrightarrow>
   spawn_only (for_lt i c (\<lambda>i. setTimeout (cb i) (d i)) s) (for_lt i c (\<lambda>i. setTimeout (cb i) (d i)) t)"
  unfolding for_lt_fold by (rule spawn_only_timeout_fold)

lemma timers_timeout_fold:
  "timers (fold (\<lambda>i. setTimeout (cb i) (d i)) xs s) = timers s @ map (\<lambda>i. (d i, cb i)) xs"
  by (induction xs arbitrary: s) simp_all

lemma timers_timeout_loop:
  "timers (for_lt 0 c (\<lambda>i. setTimeout (cb i) (d i)) s) =
     timers s @ map (\<lambda>i. (d i, cb i)) [0 ..< nat \<lceil>c\<rceil>]"
  unfolding for_lt_fold by (rule timers_timeout_fold)

lemma timeout_loop_fields [simp]:
  "attractors (for_lt i c (\<lambda>i. setTimeout (cb i) (d i)) s) = attractors s"
  "lissajous (for_lt i c (\<lambda>i. setTimeout (cb i) (d i)) s) = lissajous s"
  "fluid (for_lt i c (\<lambda>i. setTimeout (cb i) (d i)) s) = fluid s"
  "flowField (for_lt i c (\<lambda>i. setTimeout (cb i) (d i)) s) = flowField s"
  by (rule for_lt_field, simp)+

lemma createVortex_split:
  "spawn_only
     (fluidCall (AddForce (x / 20) (y / 20) 0 (- 50 * intensity) 10)
        (pushAttractor \<lparr>a_x = x, a_y = y, a_strength = 200 * intensity, a_radius = 400,
                        a_type = Vortex\<rparr> s))
     (createVortex x y count colors intensity s)"
  unfolding createVortex_def Let_def by (rule spawn_only_for_lt [OF vortexSpawn_only])

lemma createSupernova_split:
  "spawn_only
     (setTimeout (SupernovaRing x y count colors intensity) 100
        (if fluid s \<noteq> None then
           fluidCall (AddDensity (x / 20) (y / 20) (100 * intensity) 5)
             (for_lt 0 16 (supernovaForce x y intensity) s)
         else s))
     (createSupernova x y count colors intensity s)"
  unfolding createSupernova_def Let_def
  by (rule spawn_only_setTimeout [OF spawn_only_for_lt [OF supernovaBurst_only]])

lemma auroraRibbon_only: "spawn_only s (auroraRibbon width height count colors ribbon s)"
  unfolding auroraRibbon_def Let_def by (rule spawn_only_for_lt [OF auroraSpawn_only])

lemma createAurora_split:
  "spawn_only
     (if flowField s \<noteq> None then
        for_lt 0 5 (auroraSource (innerHeight s) intensity) (flowCall FlowClear s)
      else s)
     (createAurora count colors intensity s)"
  unfolding createAurora_def Let_def by (rule spawn_only_for_lt [OF auroraRibbon_only])

lemma resonanceRing_only: "spawn_only s (resonanceRing x y count colors ring s)"
  unfolding resonanceRing_def Let_def by (rule spawn_only_for_lt [OF resonanceSpawn_only])

lemma createResonance_split:
  "spawn_only
     (for_lt 0 5 (\<lambda>i. setTimeout (ResonancePulse x y) (real i * (60000 / orElse heartRate 72)))
        (pushAttractor \<lparr>a_x = x, a_y = y, a_strength = 150 * intensity, a_radius = 300,
                        a_type = Pull\<rparr> s))
     (createResonance x y count colors intensity heartRate s)"
  unfolding createResonance_def Let_def
  by (rule spawn_only_timeout_loop [OF spawn_only_for_lt [OF resonanceRing_only]])

lemma orbitCenter_only: "spawn_only s (orbitCenter count colors center_ci s)"
  unfolding orbitCenter_def Let_def by (rule spawn_only_for_lt [OF orbitSpawn_only])

lemma createOrbit_split:
  "spawn_only
     (fold (\<lambda>center. pushAttractor \<lparr>a_x = fst center, a_y = fst (snd center),
              a_strength = snd (snd center), a_radius = 250, a_type = Orbit\<rparr>)
        (orbitCenters x y intensity) s)
     (createOrbit x y count colors intensity s)"
  unfolding createOrbit_def Let_def by (rule spawn_only_fold [OF orbitCenter_only])

lemma createHarmony_split:
  "spawn_only
     ((fold (\<lambda>_. pushAttractor \<lparr>a_x = x, a_y = y, a_strength = 100 * intensity,
                a_radius = 200, a_type = Pull\<rparr>) baseAttractors s)
        \<lparr>lissajous := Some baseAttractors\<rparr>)
     (createHarmony x y count colors intensity s)"
  unfolding createHarmony_def Let_def by (rule spawn_only_for_lt [OF harmonySpawn_only])

lemma createHelix_split: "spawn_only s (createHelix x y count colors intensity s)"
  unfolding createHelix_def Let_def
  by (rule spawn_only_for_lt [OF spawn_only_for_lt [OF helixSpawn_only]])

lemma createBloom_split:
  "spawn_only
     (pushAttractor \<lparr>a_x = x, a_y = y, a_strength = 50 * intensity, a_radius = 200,
                     a_type = Pull\<rparr> s)
     (createBloom x y count colors intensity s)"
  unfolding createBloom_def Let_def
  by (rule spawn_only_for_lt [OF spawn_only_for_lt [OF spawn_only_for_lt [OF bloomSpawn_only]]])

lemma createConstellation_split: "spawn_only s (createConstellation count colors intensity s)"
  unfolding createConstellation_def by (rule spawn_only_for_lt [OF constellationSpawn_only])

lemma createNebula_split:
  "spawn_only
     (if fluid s \<noteq> None then for_lt 0 5 (nebulaDensity x y intensity) s else s)
     (createNebula x y count colors intensity s)"
  unfolding createNebula_def Let_def by (rule spawn_only_for_lt [OF nebulaSpawn_only])

section \<open>Recipes: attractors, timeouts and Lissajous parameters\<close>

lemma setup_loops [simp]:
  "attractors (for_lt i c (supernovaForce x y intensity) s) = attractors s"
  "timers (for_lt i c (supernovaForce x y intensity) s) = timers s"
  "lissajous (for_lt i c (supernovaForce x y intensity) s) = lissajous s"
  "attractors (for_lt i c (auroraSource height intensity) s) = attractors s"
  "timers (for_lt i c (auroraSource height intensity) s) = timers s"
  "lissajous (for_lt i c (auroraSource height intensity) s) = lissajous s"
  "attractors (for_lt i c (emergenceSource x y) s) = attractors s"
  "timers (for_lt i c (emergenceSource x y) s) = timers s"
  "lissajous (for_lt i c (emergenceSource x y) s) = lissajous s"
  "attractors (for_lt i c (nebulaDensity x y intensity) s) = attractors s"
  "timers (for_lt i c (nebulaDensity x y intensity) s) = timers s"
  "lissajous (for_lt i c (nebulaDensity x y intensity) s) = lissajous s"
  "attractors (for_lt i c (\<lambda>i. flowCall (g i)) s) = attractors s"
  "timers (for_lt i c (\<lambda>i. flowCall (g i)) s) = timers s"
  "lissajous (for_lt i c (\<lambda>i. flowCall (g i)) s) = lissajous s"
  by (rule for_lt_field,
      simp add: supernovaForce_def auroraSource_def emergenceSource_def nebulaDensity_def Let_def)+

lemma push_fold [simp]:
  "attractors (fold (\<lambda>c. pushAttractor (g c)) xs s) = attractors s @ map g xs"
  "timers (fold (\<lambda>c. pushAttractor (g c)) xs s) = timers s"
  "lissajous (fold (\<lambda>c. pushAttractor (g c)) xs s) = lissajous s"
  by (induction xs arbitrary: s) simp_all

lemma recipe_attractors:
  "attractors (createVortex x y count colors intensity s) =
     attractors s @ installedAttractors ''vortex'' x y intensity"
  "attractors (createSupernova x y count colors intensity s) =
     attractors s @ installedAttractors ''supernova'' x y intensity"
  "attractors (createAurora count colors intensity s) =
     attractors s @ installedAttractors ''aurora'' x y intensity"
  "attractors (createResonance x y count colors intensity heartRate s) =
     attractors s @ installedAttractors ''resonance'' x y intensity"
  "attractors (createOrbit x y count colors intensity s) =
     attractors s @ installedAttractors ''orbit'' x y intensity"
  "attractors (createCascade count colors intensity s) =
     attractors s @ installedAttractors ''cascade'' x y intensity"
  "attractors (createEmergence x y count colors intensity s) =
     attractors s @ installedAttractors ''emergence'' x y intensity"
  "attractors (createHarmony x y count colors intensity s) =
     attractors s @ installedAttractors ''harmony'' x y intensity"
  "attractors (createHelix x y count colors intensity s) =
     attractors s @ installedAttractors ''helix'' x y intensity"
  "attractors (createBloom x y count colors intensity s) =
     attractors s @ installedAttractors ''bloom'' x y intensity"
  "attractors (createConstellation count colors intensity s) =
     attractors s @ installedAttractors ''constellation'' x y intensity"
  "attractors (createNebula x y count colors intensity s) =
     attractors s @ installedAttractors ''nebula'' x y intensity"
  by (simp_all add: installedAttractors_def
      spawn_only_fields(1) [OF createVortex_split] spawn_only_fields(1) [OF createSupernova_split]
      spawn_only_fields(1) [OF createAurora_split] spawn_only_fields(1) [OF createResonance_split]
      spawn_only_fields(1) [OF createOrbit_split] spawn_only_fields(1) [OF createHarmony_split]
      spawn_only_fields(1) [OF createHelix_split] spawn_only_fields(1) [OF createBloom_split]
      spawn_only_fields(1) [OF createConstellation_split]
      spawn_only_fields(1) [OF createNebula_split]
      createCascade_def createEmergence_def orbitCenters_def baseAttractors_def Let_def
      numeral_3_eq_3)

lemma dispatch_attractors:
  "attractors (dispatch type x y count colors intensity heartRate s) =
     attractors s @ installedAttractors type x y intensity"
proof (cases "type \<in> set knownTypes")
  case False
  then show ?thesis
    by (simp add: dispatch_unknown installedAttractors_def knownTypes_def)
next
  case True
  then show ?thesis
    by (rule known_cases) (simp_all only: dispatch_known recipe_attractors)
qed

lemma recipe_timers:
  "timers (createVortex x y count colors intensity s) =
     timers s @ scheduledTimers ''vortex'' x y count colors intensity heartRate (innerWidth s)"
  "timers (createSupernova x y count colors intensity s) =
     timers s @ scheduledTimers ''supernova'' x y count colors intensity heartRate (innerWidth s)"
  "timers (createAurora count colors intensity s) =
     timers s @ scheduledTimers ''aurora'' x y count colors intensity heartRate (innerWidth s)"
  "timers (createResonance x y count colors intensity heartRate s) =
     timers s @ scheduledTimers ''resonance'' x y count colors intensity heartRate (innerWidth s)"
  "timers (createOrbit x y count colors intensity s) =
     timers s @ scheduledTimers ''orbit'' x y count colors intensity heartRate (innerWidth s)"
  "timers (createCascade count colors intensity s) =
     timers s @ scheduledTimers ''cascade'' x y count colors intensity heartRate (innerWidth s)"
  "timers (createEmergence x y count colors intensity s) =
     timers s @ scheduledTimers ''emergence'' x y count colors intensity heartRate (innerWidth s)"
  "timers (createHarmony x y count colors intensity s) =
     timers s @ scheduledTimers ''harmony'' x y count colors intensity heartRate (innerWidth s)"
  "timers (createHelix x y count colors intensity s) =
     timers s @ scheduledTimers ''helix'' x y count colors intensity heartRate (innerWidth s)"
  "timers (createBloom x y count colors intensity s) =
     timers s @ scheduledTimers ''bloom'' x y count colors intensity heartRate (innerWidth s)"
  "timers (createConstellation count colors intensity s) =
     timers s @ scheduledTimers ''constellation'' x y count colors intensity heartRate (innerWidth s)"
  "timers (createNebula x y count colors intensity s) =
     timers s @ scheduledTimers ''nebula'' x y count colors intensity heartRate (innerWidth s)"
  by (simp_all add: scheduledTimers_def timers_timeout_loop
      spawn_only_fields(11) [OF createVortex_split] spawn_only_fields(11) [OF createSupernova_split]
      spawn_only_fields(11) [OF createAurora_split] spawn_only_fields(11) [OF createResonance_split]
      spawn_only_fields(11) [OF createOrbit_split] spawn_only_fields(11) [OF createHarmony_split]
      spawn_only_fields(11) [OF createHelix_split] spawn_only_fields(11) [OF createBloom_split]
      spawn_only_fields(11) [OF createConstellation_split]
      spawn_only_fields(11) [OF createNebula_split]
      createCascade_def createEmergence_def Let_def)

lemma dispatch_timers:
  "timers (dispatch type x y count colors intensity heartRate s) =
     timers s @ scheduledTimers type x y count colors intensity heartRate (innerWidth s)"
proof (cases "type \<in> set knownTypes")
  case False
  then show ?thesis
    by (simp add: dispatch_unknown scheduledTimers_def knownTypes_def)
next
  case True
  then show ?thesis
    by (rule known_cases) (simp_all only: dispatch_known recipe_timers)
qed



section \<open>What one celebration does\<close>

lemma recipeState_fields [simp]:
  "animationId (recipeState config s) = animationId s"
  "enabled (recipeState config s) = enabled s"
  "prefersReducedMotion (recipeState config s) = prefersReducedMotion s"
  "frames (recipeState config s) = frames s"
  "nextHandle (recipeState config s) = nextHandle s"
  "rnd (recipeState config s) = rnd s"
  "innerWidth (recipeState config s) = innerWidth s"
  "innerHeight (recipeState config s) = innerHeight s"
  "time (recipeState config s) = time s"
  unfolding recipeState_def
  by (simp_all add: recipe_step_fields [OF recipe_step_dispatch])

lemma recipeState_spawns:
  "spawns (spawnCount (cfg_type config) (orElse (cfg_count config) 100) (innerWidth s)
             (innerHeight s)) s (recipeState config s)"
proof -
  let ?s1 = "s\<lparr>attractors := []\<rparr>"
  have "spawns (spawnCount (cfg_type config) (orElse (cfg_count config) 100) (innerWidth ?s1)
             (innerHeight ?s1)) ?s1 (recipeState config s)"
    unfolding recipeState_def by (rule dispatch_spawns)
  then have "spawns (spawnCount (cfg_type config) (orElse (cfg_count config) 100) (innerWidth s)
             (innerHeight s)) ?s1 (recipeState config s)" by simp
  then show ?thesis by (rule spawns_after_frame) simp_all
qed

lemma recipeState_attractors:
  "attractors (recipeState config s) =
     installedAttractors (cfg_type config)
       (fst (orElse (cfg_origin config) (0.5, 0.5)) * innerWidth s)
       (snd (orElse (cfg_origin config) (0.5, 0.5)) * innerHeight s)
       (orElse (cfg_intensity config) 1)"
  unfolding recipeState_def by (simp add: dispatch_attractors)


lemma recipeState_timers:
  "timers (recipeState config s) =
     timers s @ scheduledTimers (cfg_type config)
       (fst (orElse (cfg_origin config) (0.5, 0.5)) * innerWidth s)
       (snd (orElse (cfg_origin config) (0.5, 0.5)) * innerHeight s)
       (orElse (cfg_count config) 100)
       (orElse (cfg_colors config)
          (getColorsForEmotion
             (case cfg_emotionContext config of
                Some ec \<Rightarrow> dominantEmotion ec | None \<Rightarrow> None)))
       (orElse (cfg_intensity config) 1) (cfg_heartRate config) (innerWidth s)"
  unfolding recipeState_def by (simp add: dispatch_timers)

lemma celebrate_flags [simp]:
  "enabled (celebrate config s) = enabled s"
  "prefersReducedMotion (celebrate config s) = prefersReducedMotion s"
  "rnd (celebrate config s) = rnd s"
proof -
  show "enabled (celebrate config s) = enabled s"
    by (cases "isEnabled s") (simp_all add: celebrate_unfold, simp add: celebrate_def)
  show "prefersReducedMotion (celebrate config s) = prefersReducedMotion s"
    by (cases "isEnabled s") (simp_all add: celebrate_unfold, simp add: celebrate_def)
  show "rnd (celebrate config s) = rnd s"
    by (cases "isEnabled s") (simp_all add: celebrate_unfold, simp add: celebrate_def)
qed

lemma celebrate_isEnabled [simp]: "isEnabled (celebrate config s) = isEnabled s"
  by (simp add: isEnabled_def)

lemma celebrate_timers:
  "isEnabled s \<Longrightarrow> timers (celebrate config s) = timers (recipeState config s)"
  by (simp add: celebrate_unfold)


lemma celebrate_count:
  assumes "isEnabled s" "engine_inv s" "rnd_ok s" "particles s = []"
  shows "length (particles (celebrate config s)) =
           spawnCount (cfg_type config) (orElse (cfg_count config) 100) (innerWidth s)
             (innerHeight s)"
proof -
  let ?k = "spawnCount (cfg_type config) (orElse (cfg_count config) 100) (innerWidth s)
             (innerHeight s)"
  let ?r = "recipeState config s"
  from recipeState_spawns [of config s] assms(2,3,4)
  obtain new where new: "engine_inv ?r" "particles ?r = new" "length new = ?k"
      "\<forall>e \<in> set new. 1 < p_life (snd e)"
    unfolding spawns_def by auto
  show ?thesis
  proof (cases "animationId ?r = None")
    case True
    have "map fst (particles (animate ?r)) = map fst (particles ?r)"
      using new by (intro animate_keeps_young) simp_all
    then have "length (particles (animate ?r)) = length (particles ?r)"
      by (metis length_map)
    then show ?thesis using True new by (simp add: celebrate_unfold [OF assms(1)])
  next
    case False
    then show ?thesis using new by (auto simp: celebrate_unfold [OF assms(1)])
  qed
qed

section \<open>Claims about the tick\<close>

lemma reachable_celebrate_example:
  "reachable (celebrate (exampleConfig type count) exampleEngine)"
  by (rule reachable.r_celebrate [OF reachable_example])

lemma isEnabled_example: "isEnabled exampleEngine"
  by (simp add: isEnabled_def example_fields)

lemma rnd_ok_example: "rnd_ok exampleEngine"
  using reachable_wf [OF reachable_example] by simp

lemma example_vortex_count:
  "length (particles (celebrate (exampleConfig ''vortex'' 1) exampleEngine)) = 1"
  using celebrate_count [OF isEnabled_example engine_inv_example rnd_ok_example,
      of "exampleConfig ''vortex'' 1"]
  by (simp add: example_fields exampleConfig_def orElse_def spawnCount_known)




section \<open>Claims about unknown recipes and about clearing\<close>

lemma animate_keys_subset: "fst ` set (particles (animate s)) \<subseteq> fst ` set (particles s)"
proof -
  have "set (particles (tickParticles (tickPrepare s))) \<subseteq>
          set (map (\<lambda>e. (fst e, updateParticle (tickPrepare s) (snd e) 1)) (particles s))"
    by (simp add: tickParticles_def Let_def fold_map_delete)
  then have "fst ` set (particles (tickParticles (tickPrepare s))) \<subseteq>
          fst ` set (map (\<lambda>e. (fst e, updateParticle (tickPrepare s) (snd e) 1)) (particles s))"
    by (rule image_mono)
  then show ?thesis by (simp add: animate_particles image_image)
qed

lemma recipeState_unknown:
  "cfg_type config \<notin> set knownTypes \<Longrightarrow> recipeState config s = s\<lparr>attractors := []\<rparr>"
  by (simp add: recipeState_def dispatch_unknown)

lemma animate_no_attractors: "attractors s = [] \<Longrightarrow> attractors (animate s) = []"
  using animate_fields(6) [of s] by (simp only: length_0_conv [symmetric])

text \<open>
  C3 (as amended). On an enabled engine, \<^verbatim>\<open>celebrate\<close> with a recipe name that is not one
  of the twelve empties the attractor list (the previous attractors are discarded before
  the \<^verbatim>\<open>switch\<close>) and, when no animation frame is pending, runs one tick. It adds no
  particle (the id counter and the set of ids do not grow), installs no attractor,
  schedules no timeout, and does not throw; with a frame pending the particle map is
  unchanged.
\<close>

theorem celebrate_unknown_type:
  assumes "cfg_type config \<notin> set knownTypes" and "isEnabled s"
  shows "celebrate config s =
           (if animationId s = None then animate (s\<lparr>attractors := []\<rparr>)
            else s\<lparr>attractors := []\<rparr>) \<and>
         attractors (celebrate config s) = [] \<and>
         particleIdCounter (celebrate config s) = particleIdCounter s \<and>
         fst ` set (particles (celebrate config s)) \<subseteq> fst ` set (particles s) \<and>
         timers (celebrate config s) = timers s \<and>
         (animationId s \<noteq> None \<longrightarrow> particles (celebrate config s) = particles s)"
proof -
  have c: "celebrate config s =
           (if animationId s = None then animate (s\<lparr>attractors := []\<rparr>)
            else s\<lparr>attractors := []\<rparr>)"
    by (simp add: celebrate_unfold [OF assms(2)] recipeState_unknown [OF assms(1)])
  have k: "fst ` set (particles (animate (s\<lparr>attractors := []\<rparr>))) \<subseteq> fst ` set (particles s)"
    using animate_keys_subset [of "s\<lparr>attractors := []\<rparr>"] by simp
  show ?thesis
    unfolding c using k by (auto simp: animate_no_attractors)
qed

theorem celebrate_unknown_type_witness:
  "''fireworks'' \<notin> set knownTypes \<and> isEnabled exampleEngine \<and>
   attractors (celebrate (exampleConfig ''fireworks'' 10) exampleEngine) = [] \<and>
   particleIdCounter (celebrate (exampleConfig ''fireworks'' 10) exampleEngine) = 0 \<and>
   particles (celebrate (exampleConfig ''fireworks'' 10) exampleEngine) = []"
proof -
  have u: "cfg_type (exampleConfig ''fireworks'' 10) \<notin> set knownTypes"
    by (simp add: exampleConfig_def knownTypes_def)
  let ?c = "celebrate (exampleConfig ''fireworks'' 10) exampleEngine"
  note t = celebrate_unknown_type [OF u isEnabled_example]
  from t have a: "attractors ?c = []" by blast
  from t have b: "particleIdCounter ?c = particleIdCounter exampleEngine" by blast
  from t have "fst ` set (particles ?c) \<subseteq> fst ` set (particles exampleEngine)" by blast
  then have c: "particles ?c = []" by (simp add: example_fields)
  have "''fireworks'' \<notin> set knownTypes" by (simp add: knownTypes_def)
  then show ?thesis using isEnabled_example a b c by (simp add: example_fields)
qed

text \<open>
  C3 as stated fails: the call is not a no-op. After a \<open>bloom\<close> celebration the engine holds
  one attractor; a celebration with an unknown name then leaves it with none.
\<close>

theorem celebrate_unknown_type_counterexample:
  "''fireworks'' \<notin> set knownTypes \<and>
   isEnabled (celebrate (exampleConfig ''bloom'' 0) exampleEngine) \<and>
   attractors (celebrate (exampleConfig ''bloom'' 0) exampleEngine) \<noteq> [] \<and>
   celebrate (exampleConfig ''fireworks'' 10) (celebrate (exampleConfig ''bloom'' 0) exampleEngine)
     \<noteq> celebrate (exampleConfig ''bloom'' 0) exampleEngine"
proof -
  let ?s = "celebrate (exampleConfig ''bloom'' 0) exampleEngine"
  have u: "cfg_type (exampleConfig ''fireworks'' 10) \<notin> set knownTypes"
    by (simp add: exampleConfig_def knownTypes_def)
  have en: "isEnabled ?s" by (simp add: isEnabled_example)
  have ra: "attractors (recipeState (exampleConfig ''bloom'' 0) exampleEngine) \<noteq> []"
    by (simp add: recipeState_attractors exampleConfig_def installedAttractors_def)
  have "length (attractors ?s) = length (attractors (recipeState (exampleConfig ''bloom'' 0) exampleEngine))"
    by (simp add: celebrate_unfold [OF isEnabled_example] example_fields)
  then have a: "attractors ?s \<noteq> []" using ra by auto
  have "attractors (celebrate (exampleConfig ''fireworks'' 10) ?s) = []"
  proof (cases "animationId ?s = None")
    case True
    then show ?thesis
      by (simp add: celebrate_unfold [OF en] recipeState_unknown [OF u] animate_no_attractors)
  next
    case False
    then show ?thesis
      by (auto simp: celebrate_unfold [OF en] recipeState_unknown [OF u])
  qed
  then have "celebrate (exampleConfig ''fireworks'' 10) ?s \<noteq> ?s" using a by auto
  then show ?thesis using en a by (simp add: knownTypes_def)
qed

lemma clear_frames: "frames_inv s \<Longrightarrow> frames (clear s) = []"
  by (auto simp: frames_inv_def split: option.splits)

lemma frameFires_none: "frames s = [] \<Longrightarrow> frameFires h s = s"
  by (simp add: frameFires_def)

lemma setEnabled_False: "setEnabled False s = clear (s\<lparr>enabled := False\<rparr>)"
  by (simp add: setEnabled_def)

lemma spawns_length:
  "spawns k s s' \<Longrightarrow> engine_inv s \<Longrightarrow> rnd_ok s \<Longrightarrow>
   length (particles s') = length (particles s) + k"
  by (auto simp: spawns_def)

text \<open>
  C1 (as amended). In every reachable state, \<^verbatim>\<open>clear()\<close> and \<^verbatim>\<open>setEnabled(false)\<close> empty
  the particle map and the attractor list and cancel the pending scheduled tick: no frame
  request is left, so no tick runs from a request made before the call. The pending
  \<^verbatim>\<open>setTimeout\<close> callbacks are not cancelled; the engine keeps no handle to them.
\<close>

theorem clear_cancels_tick:
  assumes "reachable s"
  shows "particles (clear s) = [] \<and> attractors (clear s) = [] \<and>
         animationId (clear s) = None \<and> frames (clear s) = [] \<and>
         (\<forall>h. frameFires h (clear s) = clear s) \<and>
         timers (clear s) = timers s \<and>
         particles (setEnabled False s) = [] \<and> attractors (setEnabled False s) = [] \<and>
         animationId (setEnabled False s) = None \<and> frames (setEnabled False s) = [] \<and>
         (\<forall>h. frameFires h (setEnabled False s) = setEnabled False s) \<and>
         timers (setEnabled False s) = timers s"
proof -
  have fi: "frames_inv s" using reachable_wf [OF assms] by simp
  then have fi': "frames_inv (s\<lparr>enabled := False\<rparr>)" by simp
  have 1: "frames (clear s) = []" by (rule clear_frames [OF fi])
  have 2: "frames (setEnabled False s) = []"
    unfolding setEnabled_False by (rule clear_frames [OF fi'])
  show ?thesis
    using 1 2 frameFires_none [OF 1] frameFires_none [OF 2]
    by (simp add: setEnabled_False)
qed

theorem clear_cancels_tick_witness:
  "reachable (celebrate (exampleConfig ''vortex'' 1) exampleEngine) \<and>
   particles (celebrate (exampleConfig ''vortex'' 1) exampleEngine) \<noteq> [] \<and>
   particles (clear (celebrate (exampleConfig ''vortex'' 1) exampleEngine)) = [] \<and>
   frames (clear (celebrate (exampleConfig ''vortex'' 1) exampleEngine)) = [] \<and>
   frames (setEnabled False (celebrate (exampleConfig ''vortex'' 1) exampleEngine)) = []"
proof -
  have r: "reachable (celebrate (exampleConfig ''vortex'' 1) exampleEngine)"
    by (rule reachable_celebrate_example)
  have "particles (celebrate (exampleConfig ''vortex'' 1) exampleEngine) \<noteq> []"
    using example_vortex_count by auto
  then show ?thesis using r clear_cancels_tick [OF r] by blast
qed

text \<open>
  C1 as stated fails for the delayed callbacks. A \<open>supernova\<close> celebration with count 1
  schedules its secondary ring; after \<^verbatim>\<open>clear()\<close> (or \<^verbatim>\<open>setEnabled(false)\<close>) the timeout
  is still pending, and when it fires it puts a particle into the cleared map.
\<close>

theorem clear_keeps_timeouts_counterexample:
  "timers (clear (celebrate (exampleConfig ''supernova'' 1) exampleEngine)) \<noteq> [] \<and>
   particles (clear (celebrate (exampleConfig ''supernova'' 1) exampleEngine)) = [] \<and>
   length (particles (timeoutFires 0
     (clear (celebrate (exampleConfig ''supernova'' 1) exampleEngine)))) = 1 \<and>
   length (particles (timeoutFires 0
     (setEnabled False (celebrate (exampleConfig ''supernova'' 1) exampleEngine)))) = 1"
proof -
  let ?s1 = "celebrate (exampleConfig ''supernova'' 1) exampleEngine"
  obtain x y colors i where t: "timers ?s1 = [(100, SupernovaRing x y 1 colors i)]"
    by (simp add: celebrate_timers [OF isEnabled_example] recipeState_timers scheduledTimers_def
        exampleConfig_def example_fields orElse_def)
  have rok: "rnd_ok ?s1" using rnd_ok_example by (simp add: rnd_ok_def)
  have fire: "\<And>u :: engine. timers u = timers ?s1 \<Longrightarrow> particles u = [] \<Longrightarrow> rnd u = rnd ?s1 \<Longrightarrow>
      length (particles (timeoutFires 0 u)) = 1"
  proof -
    fix u :: engine assume u: "timers u = timers ?s1" "particles u = []" "rnd u = rnd ?s1"
    let ?u' = "u\<lparr>timers := []\<rparr>"
    have inv: "engine_inv ?u'" using u(2) by (simp add: engine_inv_def)
    have ok: "rnd_ok ?u'" using rok u(3) by (simp add: rnd_ok_def)
    have "length (particles (runCallback (SupernovaRing x y 1 colors i) ?u')) =
            length (particles ?u') + callbackCount (SupernovaRing x y 1 colors i)"
      by (rule spawns_length [OF runCallback_spawns inv ok])
    then show "length (particles (timeoutFires 0 u)) = 1"
      using u(1,2) t by (simp add: timeoutFires_def del: runCallback.simps)
  qed
  have a: "length (particles (timeoutFires 0 (clear ?s1))) = 1"
    by (rule fire) simp_all
  have b: "length (particles (timeoutFires 0 (setEnabled False ?s1))) = 1"
    by (rule fire) (simp_all add: setEnabled_False)
  show ?thesis using a b t by simp
qed

section \<open>Successive celebrations\<close>





lemma viewport_steps [simp]:
  "innerWidth (lissajousStep ls i s) = innerWidth s"
  "innerHeight (lissajousStep ls i s) = innerHeight s"
  "innerWidth (tickParticles s) = innerWidth s"
  "innerHeight (tickParticles s) = innerHeight s"
  by (simp_all add: lissajousStep_def tickParticles_def Let_def)

lemma tickPrepare_viewport [simp]:
  "innerWidth (tickPrepare s) = innerWidth s" "innerHeight (tickPrepare s) = innerHeight s"
  by (simp_all add: tickPrepare_def Let_def for_lt_field split: option.splits)

lemma animate_viewport [simp]:
  "innerWidth (animate s) = innerWidth s" "innerHeight (animate s) = innerHeight s"
  by (simp_all add: animate_decompose Let_def)

lemma celebrate_viewport [simp]:
  "innerWidth (celebrate config s) = innerWidth s"
  "innerHeight (celebrate config s) = innerHeight s"
proof -
  show "innerWidth (celebrate config s) = innerWidth s"
    by (cases "isEnabled s") (simp_all add: celebrate_unfold, simp add: celebrate_def)
  show "innerHeight (celebrate config s) = innerHeight s"
    by (cases "isEnabled s") (simp_all add: celebrate_unfold, simp add: celebrate_def)
qed



end
